theory Spec2Isabelle
  imports Main "HOL-Library.Sublist"
begin

section \<open>Python values used by the client\<close>

text \<open>
  The development embeds \<^verbatim>\<open>src/mvp_ai/gemini_client.py\<close> (class \<^verbatim>\<open>GeminiClient\<close>).
  Python strings are modelled as \<open>string\<close>; case mapping and whitespace are those of the
  ASCII range (and Latin-1 whitespace), which is all the signal substrings of the client use.
\<close>

subsection \<open>Strings\<close>

definition py_lower_char :: "char \<Rightarrow> char" where
  "py_lower_char c =
     (case map_of (zip ''ABCDEFGHIJKLMNOPQRSTUVWXYZ'' ''abcdefghijklmnopqrstuvwxyz'') c of
        Some d \<Rightarrow> d | None \<Rightarrow> c)"

definition py_upper_char :: "char \<Rightarrow> char" where
  "py_upper_char c =
     (case map_of (zip ''abcdefghijklmnopqrstuvwxyz'' ''ABCDEFGHIJKLMNOPQRSTUVWXYZ'') c of
        Some d \<Rightarrow> d | None \<Rightarrow> c)"

definition py_is_cased :: "char \<Rightarrow> bool" where
  "py_is_cased c \<longleftrightarrow>
     c \<in> set ''ABCDEFGHIJKLMNOPQRSTUVWXYZabcdefghijklmnopqrstuvwxyz''"

text \<open>\<^verbatim>\<open>str.lower()\<close>.\<close>

definition py_lower :: "string \<Rightarrow> string" where
  "py_lower s = map py_lower_char s"

text \<open>\<^verbatim>\<open>str.title()\<close>: a cased character is upper-cased when the previous character is
  not cased and lower-cased otherwise.\<close>

fun py_title_from :: "bool \<Rightarrow> string \<Rightarrow> string" where
  "py_title_from prev [] = []"
| "py_title_from prev (c # cs) =
     (if py_is_cased c
      then (if prev then py_lower_char c else py_upper_char c) # py_title_from True cs
      else c # py_title_from False cs)"

definition py_title :: "string \<Rightarrow> string" where
  "py_title s = py_title_from False s"

text \<open>\<^verbatim>\<open>pat in s\<close> on strings: \<open>pat\<close> occurs as a contiguous substring of \<open>s\<close>.\<close>

definition py_in :: "string \<Rightarrow> string \<Rightarrow> bool" where
  "py_in pat s = sublist pat s"

text \<open>\<^verbatim>\<open>str.isspace()\<close> on one character (code points below 256).\<close>

definition py_isspace :: "char \<Rightarrow> bool" where
  "py_isspace c \<longleftrightarrow>
     c \<in> set [CHR 0x09, CHR 0x0A, CHR 0x0B, CHR 0x0C, CHR 0x0D, CHR 0x1C, CHR 0x1D,
               CHR 0x1E, CHR 0x1F, CHR 0x20, CHR 0x85, CHR 0xA0]"

text \<open>\<^verbatim>\<open>str.strip()\<close> without argument.\<close>

definition py_strip :: "string \<Rightarrow> string" where
  "py_strip s = rev (dropWhile py_isspace (rev (dropWhile py_isspace s)))"

text \<open>\<^verbatim>\<open>s.rstrip(chars)\<close>: removes trailing characters that are members of \<open>chars\<close>
  (a set of characters, not a suffix).\<close>

definition py_rstrip_chars :: "string \<Rightarrow> string \<Rightarrow> string" where
  "py_rstrip_chars chars s = rev (dropWhile (\<lambda>c. c \<in> set chars) (rev s))"

text \<open>Decimal rendering of integers, as \<^verbatim>\<open>str(n)\<close> and f-string interpolation do.\<close>

fun str_nat :: "nat \<Rightarrow> string" where
  "str_nat n =
     (if n < 10 then [''0123456789'' ! n]
      else str_nat (n div 10) @ [''0123456789'' ! (n mod 10)])"

declare str_nat.simps [simp del]

definition str_int :: "int \<Rightarrow> string" where
  "str_int i = (if i < 0 then CHR ''-'' # str_nat (nat (- i)) else str_nat (nat i))"

subsection \<open>Paths (\<^verbatim>\<open>os.path\<close>, POSIX flavour)\<close>

text \<open>\<^verbatim>\<open>os.path.join\<close>: an absolute component discards what precedes it; otherwise
  components are joined by one separator unless the path so far is empty or ends in one.\<close>

definition path_join2 :: "string \<Rightarrow> string \<Rightarrow> string" where
  "path_join2 path b =
     (if prefix ''/'' b then b
      else if path = [] \<or> suffix ''/'' path then path @ b
      else path @ ''/'' @ b)"

definition path_join :: "string \<Rightarrow> string list \<Rightarrow> string" where
  "path_join a ps = foldl path_join2 a ps"

text \<open>\<^verbatim>\<open>os.path.basename\<close>: what follows the last separator.\<close>

definition path_basename :: "string \<Rightarrow> string" where
  "path_basename p = rev (takeWhile (\<lambda>c. c \<noteq> CHR ''/'') (rev p))"

text \<open>\<^verbatim>\<open>os.path.splitext(p)[1]\<close>: the extension starts at the last dot of the last
  path component, provided some character other than a dot precedes it in that component;
  otherwise the extension is empty.\<close>

definition splitext_ext :: "string \<Rightarrow> string" where
  "splitext_ext p =
     (let name = path_basename p;
          ext_rev = takeWhile (\<lambda>c. c \<noteq> CHR ''.'') (rev name);
          stem = take (length name - length ext_rev - 1) name
      in if CHR ''.'' \<in> set name \<and> (\<exists>c \<in> set stem. c \<noteq> CHR ''.'')
         then CHR ''.'' # rev ext_rev else [])"

subsection \<open>Exceptions\<close>

text \<open>An exception is its class and the text \<^verbatim>\<open>str(error)\<close> yields. All classes here
  derive from \<^verbatim>\<open>Exception\<close>, so \<^verbatim>\<open>except Exception\<close> catches each of them.\<close>

datatype exn_kind =
    PlainException | ValueError | IndexError | KeyError | TypeError | AttributeError
  | ZeroDivisionError | OSError | HTTPError | ConnectionError | Timeout
  | JSONDecodeError | BinasciiError

datatype exn = Exn (exn_kind: exn_kind) (exn_msg: string)

subsection \<open>Decoded JSON\<close>

text \<open>What \<^verbatim>\<open>response.json()\<close> returns. Numbers are integers here; \<open>JNull\<close> is \<^verbatim>\<open>None\<close>.
  An object is an association list read by its first matching key.\<close>

datatype json =
    JNull | JBool bool | JInt int | JStr string | JArr "json list"
  | JObj "(string \<times> json) list"

fun py_type_name :: "json \<Rightarrow> string" where
  "py_type_name JNull = ''NoneType''"
| "py_type_name (JBool b) = ''bool''"
| "py_type_name (JInt i) = ''int''"
| "py_type_name (JStr s) = ''str''"
| "py_type_name (JArr xs) = ''list''"
| "py_type_name (JObj kvs) = ''dict''"

text \<open>Truth value of a Python object (\<^verbatim>\<open>if x:\<close>, \<^verbatim>\<open>not x\<close>).\<close>

fun py_truthy :: "json \<Rightarrow> bool" where
  "py_truthy JNull = False"
| "py_truthy (JBool b) = b"
| "py_truthy (JInt i) = (i \<noteq> 0)"
| "py_truthy (JStr s) = (s \<noteq> [])"
| "py_truthy (JArr xs) = (xs \<noteq> [])"
| "py_truthy (JObj kvs) = (kvs \<noteq> [])"

text \<open>\<^verbatim>\<open>repr\<close> of a string without quotes or backslashes, and of a type name in a
  message: the text between apostrophes.\<close>

definition quoted :: "string \<Rightarrow> string" where
  "quoted s = [CHR 0x27] @ s @ [CHR 0x27]"

definition not_subscriptable :: "json \<Rightarrow> exn" where
  "not_subscriptable v =
     Exn TypeError (quoted (py_type_name v) @ '' object is not subscriptable'')"

text \<open>\<^verbatim>\<open>v[key]\<close> with a string key.\<close>

fun py_getitem_key :: "json \<Rightarrow> string \<Rightarrow> exn + json" where
  "py_getitem_key (JObj kvs) k =
     (case map_of kvs k of
        Some v \<Rightarrow> Inr v
      | None \<Rightarrow> Inl (Exn KeyError (quoted k)))"
| "py_getitem_key (JArr xs) k =
     Inl (Exn TypeError ''list indices must be integers or slices, not str'')"
| "py_getitem_key (JStr s) k =
     Inl (Exn TypeError (''string indices must be integers, not '' @ quoted ''str''))"
| "py_getitem_key v k = Inl (not_subscriptable v)"

text \<open>\<^verbatim>\<open>v[0]\<close>.\<close>

fun py_getitem_0 :: "json \<Rightarrow> exn + json" where
  "py_getitem_0 (JArr []) = Inl (Exn IndexError ''list index out of range'')"
| "py_getitem_0 (JArr (x # xs)) = Inr x"
| "py_getitem_0 (JStr []) = Inl (Exn IndexError ''string index out of range'')"
| "py_getitem_0 (JStr (c # cs)) = Inr (JStr [c])"
| "py_getitem_0 (JObj kvs) = Inl (Exn KeyError ''0'')"
| "py_getitem_0 v = Inl (not_subscriptable v)"

definition no_attribute :: "json \<Rightarrow> string \<Rightarrow> exn" where
  "no_attribute v a =
     Exn AttributeError
       (quoted (py_type_name v) @ '' object has no attribute '' @ quoted a)"

text \<open>\<^verbatim>\<open>v.get(key)\<close> and \<^verbatim>\<open>v.get(key, default)\<close>: defined on dictionaries only.\<close>

fun py_get :: "json \<Rightarrow> string \<Rightarrow> json \<Rightarrow> exn + json" where
  "py_get (JObj kvs) k dflt = (case map_of kvs k of Some v \<Rightarrow> Inr v | None \<Rightarrow> Inr dflt)"
| "py_get v k dflt = Inl (no_attribute v ''get'')"

text \<open>\<^verbatim>\<open>v.strip()\<close>: defined on strings only.\<close>

fun py_strip_method :: "json \<Rightarrow> exn + string" where
  "py_strip_method (JStr s) = Inr (py_strip s)"
| "py_strip_method v = Inl (no_attribute v ''strip'')"

text \<open>The items a \<^verbatim>\<open>for\<close> loop draws from a value: the elements of a list, the keys of a
  dictionary, the characters of a string.\<close>

fun py_iter :: "json \<Rightarrow> exn + json list" where
  "py_iter (JArr xs) = Inr xs"
| "py_iter (JObj kvs) = Inr (map (\<lambda>k. JStr k) (remdups (map fst kvs)))"
| "py_iter (JStr s) = Inr (map (\<lambda>c. JStr [c]) s)"
| "py_iter v =
     Inl (Exn TypeError (quoted (py_type_name v) @ '' object is not iterable''))"

section \<open>The environment of the client\<close>

text \<open>
  The HTTP library, the clock and the file system are not part of the repository. They
  enter as an environment record: each field is what the corresponding library call
  returns or raises. The remote service may answer differently each time it is asked, so
  the transport and the clock are indexed by the number of requests sent so far.
\<close>

datatype body = NoBody | JsonBody json | RawBody string

record request =
  req_url :: string
  req_headers :: "(string \<times> string) list"
  req_params :: "(string \<times> string) list"
  req_body :: body
  req_timeout :: "nat option"

text \<open>A response: what \<^verbatim>\<open>raise_for_status()\<close> raises (if anything), what
  \<^verbatim>\<open>headers.get(name)\<close> returns, and what \<^verbatim>\<open>json()\<close> returns or raises.\<close>

record response =
  status_exn :: "exn option"
  header_get :: "string \<Rightarrow> string option"
  json_result :: "exn + json"

record env =
  transport :: "nat \<Rightarrow> request \<Rightarrow> exn + response"
  clock :: "nat \<Rightarrow> int"
  module_dir :: string
  b64decode :: "string \<Rightarrow> exn + string"
  open_wb :: "string \<Rightarrow> exn option"
  getsize :: "string \<Rightarrow> exn + nat"
  read_rb :: "string \<Rightarrow> exn + string"

text \<open>The world outside the client object: the requests sent, oldest first, and the files
  written (path and content), oldest first.\<close>

record world =
  sent :: "request list"
  written :: "(string \<times> string) list"

type_synonym 'a io = "world \<Rightarrow> (exn + 'a) \<times> world"

definition io_return :: "'a \<Rightarrow> 'a io" where
  "io_return x = (\<lambda>w. (Inr x, w))"

definition io_raise :: "exn \<Rightarrow> 'a io" where
  "io_raise e = (\<lambda>w. (Inl e, w))"

definition io_bind :: "'a io \<Rightarrow> ('a \<Rightarrow> 'b io) \<Rightarrow> 'b io" where
  "io_bind m f = (\<lambda>w. case m w of (Inl e, w') \<Rightarrow> (Inl e, w') | (Inr x, w') \<Rightarrow> f x w')"

text \<open>A pure computation that may raise, run at this point of the sequence.\<close>

definition io_lift :: "exn + 'a \<Rightarrow> 'a io" where
  "io_lift r = (\<lambda>w. (r, w))"

text \<open>\<^verbatim>\<open>requests.post(...)\<close>: the request goes out, and the transport answers or raises.\<close>

definition requests_post :: "env \<Rightarrow> request \<Rightarrow> response io" where
  "requests_post ev rq = (\<lambda>w. (transport ev (length (sent w)) rq, w\<lparr>sent := sent w @ [rq]\<rparr>))"

definition raise_for_status :: "response \<Rightarrow> unit io" where
  "raise_for_status r = (case status_exn r of Some e \<Rightarrow> io_raise e | None \<Rightarrow> io_return ())"

text \<open>\<^verbatim>\<open>with open(path, "wb") as f: f.write(data)\<close>.\<close>

definition write_file :: "env \<Rightarrow> string \<Rightarrow> string \<Rightarrow> unit io" where
  "write_file ev path data =
     (\<lambda>w. case open_wb ev path of
             Some e \<Rightarrow> (Inl e, w)
           | None \<Rightarrow> (Inr (), w\<lparr>written := written w @ [(path, data)]\<rparr>))"

section \<open>The client\<close>

text \<open>
  The fields \<^verbatim>\<open>__init__\<close> sets, and two observation fields that no method reads: the
  number of times the retry wrapper has invoked a request function, and the durations in
  milliseconds of the \<^verbatim>\<open>time.sleep\<close> calls made, oldest first.
\<close>

record client =
  api_keys :: "string list"
  current_key_index :: nat
  max_retries :: int
  retry_delay_429 :: int
  retry_delay_503 :: int
  retry_delay_500 :: int
  attempts :: nat
  slept :: "int list"

definition imagen_url :: string where
  "imagen_url = ''https://generativelanguage.googleapis.com/v1beta/models/imagen-3.0-generate-002:predict''"

definition text_url :: string where
  "text_url = ''https://generativelanguage.googleapis.com/v1beta/models/gemini-2.5-flash:generateContent''"

definition image_url :: string where
  "image_url = ''https://generativelanguage.googleapis.com/v1beta/models/gemini-2.0-flash:generateContent''"

definition upload_url :: string where
  "upload_url = ''https://generativelanguage.googleapis.com/upload/v1beta/files''"

text \<open>\<^verbatim>\<open>__init__\<close>, given the keys \<^verbatim>\<open>_load_api_keys\<close> found and the four configured
  integers: construction fails when there is no key.\<close>

definition init_client :: "string list \<Rightarrow> int \<Rightarrow> int \<Rightarrow> int \<Rightarrow> int \<Rightarrow> exn + client" where
  "init_client keys mr d429 d503 d500 =
     (if keys = [] then Inl (Exn ValueError ''No Gemini API keys found in environment variables'')
      else Inr \<lparr>api_keys = keys, current_key_index = 0, max_retries = mr,
                retry_delay_429 = d429, retry_delay_503 = d503, retry_delay_500 = d500,
                attempts = 0, slept = []\<rparr>)"

text \<open>\<^verbatim>\<open>_get_current_api_key\<close>: list indexing raises outside the list.\<close>

definition get_current_api_key :: "client \<Rightarrow> exn + string" where
  "get_current_api_key c =
     (if current_key_index c < length (api_keys c)
      then Inr (api_keys c ! current_key_index c)
      else Inl (Exn IndexError ''list index out of range''))"

text \<open>\<^verbatim>\<open>_switch_api_key\<close>: the remainder raises on an empty pool.\<close>

definition switch_api_key :: "client \<Rightarrow> exn + client" where
  "switch_api_key c =
     (if length (api_keys c) = 0
      then Inl (Exn ZeroDivisionError ''integer modulo by zero'')
      else Inr (c\<lparr>current_key_index := (current_key_index c + 1) mod length (api_keys c)\<rparr>))"

text \<open>\<^verbatim>\<open>time.sleep(ms / 1000)\<close>: a negative duration is refused.\<close>

definition sleep_ms :: "int \<Rightarrow> client \<Rightarrow> exn + client" where
  "sleep_ms ms c =
     (if ms < 0 then Inl (Exn ValueError ''sleep length must be non-negative'')
      else Inr (c\<lparr>slept := slept c @ [ms]\<rparr>))"

text \<open>\<^verbatim>\<open>_handle_error\<close>: returns whether to retry, or raises what the rotation or the
  sleep raises. The client returned is the one in force afterwards.\<close>

definition handle_error :: "exn \<Rightarrow> int \<Rightarrow> int \<Rightarrow> client \<Rightarrow> (exn + bool) \<times> client" where
  "handle_error error retry_count max_r c =
     (let error_msg = py_lower (exn_msg error) in
      if retry_count \<ge> max_r then (Inr False, c)
      else if py_in ''429'' error_msg \<or> py_in ''too many requests'' error_msg then
        (case switch_api_key c of
           Inl e \<Rightarrow> (Inl e, c)
         | Inr c1 \<Rightarrow>
             (case sleep_ms (retry_delay_429 c1) c1 of
                Inl e \<Rightarrow> (Inl e, c1)
              | Inr c2 \<Rightarrow> (Inr True, c2)))
      else if py_in ''503'' error_msg \<or> py_in ''service unavailable'' error_msg then
        (case sleep_ms (retry_delay_503 c) c of
           Inl e \<Rightarrow> (Inl e, c)
         | Inr c1 \<Rightarrow> (Inr True, c1))
      else if py_in ''500'' error_msg \<or> py_in ''internal server error'' error_msg then
        (case sleep_ms (retry_delay_500 c) c of
           Inl e \<Rightarrow> (Inl e, c)
         | Inr c1 \<Rightarrow> (Inr True, c1))
      else if py_in ''timeout'' error_msg then
        (case sleep_ms 2000 c of
           Inl e \<Rightarrow> (Inl e, c)
         | Inr c1 \<Rightarrow> (Inr True, c1))
      else (Inr False, c))"

text \<open>The four signal tests of \<^verbatim>\<open>_handle_error\<close>, by name: each is the condition of
  one branch, on the lower-cased message.\<close>

definition rate_limit_signal :: "exn \<Rightarrow> bool" where
  "rate_limit_signal e \<longleftrightarrow>
     py_in ''429'' (py_lower (exn_msg e)) \<or> py_in ''too many requests'' (py_lower (exn_msg e))"

definition unavailable_signal :: "exn \<Rightarrow> bool" where
  "unavailable_signal e \<longleftrightarrow>
     py_in ''503'' (py_lower (exn_msg e)) \<or> py_in ''service unavailable'' (py_lower (exn_msg e))"

definition internal_error_signal :: "exn \<Rightarrow> bool" where
  "internal_error_signal e \<longleftrightarrow>
     py_in ''500'' (py_lower (exn_msg e))
     \<or> py_in ''internal server error'' (py_lower (exn_msg e))"

definition timeout_signal :: "exn \<Rightarrow> bool" where
  "timeout_signal e \<longleftrightarrow> py_in ''timeout'' (py_lower (exn_msg e))"

text \<open>What \<^verbatim>\<open>requests.post\<close> followed by \<^verbatim>\<open>raise_for_status\<close> raises, if anything, for
  the request sent when \<open>n\<close> requests have gone out before.\<close>

definition post_raises :: "env \<Rightarrow> nat \<Rightarrow> request \<Rightarrow> exn option" where
  "post_raises ev n rq =
     (case transport ev n rq of Inl e \<Rightarrow> Some e | Inr r \<Rightarrow> status_exn r)"

text \<open>The exception raised after the loop of \<^verbatim>\<open>_make_request_with_retry\<close>.\<close>

definition exhausted_retries :: "int \<Rightarrow> exn" where
  "exhausted_retries m =
     Exn PlainException (''Failed after '' @ str_int m @ '' retry attempts'')"

text \<open>\<^verbatim>\<open>range(n)\<close>.\<close>

definition py_range :: "int \<Rightarrow> int list" where
  "py_range n = map int [0..<nat n]"

text \<open>\<^verbatim>\<open>_make_request_with_retry\<close>. The loop runs over the retry counts that remain; a
  request function reads the client and acts on the world, and each invocation is counted
  in \<open>attempts\<close>. When the counts are used up the statement after the loop raises.\<close>

fun retry_loop ::
  "(client \<Rightarrow> 'a io) \<Rightarrow> int list \<Rightarrow> client \<Rightarrow> world \<Rightarrow> (exn + 'a) \<times> client \<times> world" where
  "retry_loop request_func [] c w =
     (Inl (exhausted_retries (max_retries c)), c, w)"
| "retry_loop request_func (retry_count # rest) c w =
     (let c0 = c\<lparr>attempts := attempts c + 1\<rparr> in
      case request_func c w of
        (Inr v, w1) \<Rightarrow> (Inr v, c0, w1)
      | (Inl e, w1) \<Rightarrow>
          (case handle_error e retry_count (max_retries c0) c0 of
             (Inl e', c1) \<Rightarrow> (Inl e', c1, w1)
           | (Inr False, c1) \<Rightarrow> (Inl e, c1, w1)
           | (Inr True, c1) \<Rightarrow> retry_loop request_func rest c1 w1))"

definition make_request_with_retry ::
  "(client \<Rightarrow> 'a io) \<Rightarrow> client \<Rightarrow> world \<Rightarrow> (exn + 'a) \<times> client \<times> world" where
  "make_request_with_retry request_func c w =
     retry_loop request_func (py_range (max_retries c + 1)) c w"

section \<open>The request functions\<close>

definition exn_bind :: "exn + 'a \<Rightarrow> ('a \<Rightarrow> exn + 'b) \<Rightarrow> exn + 'b" where
  "exn_bind r f = (case r of Inl e \<Rightarrow> Inl e | Inr x \<Rightarrow> f x)"

text \<open>\<^verbatim>\<open>result['candidates'][0]['content']['parts'][0]['text'].strip()\<close>.\<close>

definition extract_text :: "json \<Rightarrow> exn + string" where
  "extract_text result =
     exn_bind (py_getitem_key result ''candidates'') (\<lambda>cands.
     exn_bind (py_getitem_0 cands) (\<lambda>cand.
     exn_bind (py_getitem_key cand ''content'') (\<lambda>content.
     exn_bind (py_getitem_key content ''parts'') (\<lambda>parts.
     exn_bind (py_getitem_0 parts) (\<lambda>part.
     exn_bind (py_getitem_key part ''text'') (\<lambda>txt.
     py_strip_method txt))))))"

subsection \<open>Text generation\<close>

definition text_request :: "string \<Rightarrow> string \<Rightarrow> request" where
  "text_request key prompt =
     \<lparr>req_url = text_url,
      req_headers = [(''Content-Type'', ''application/json'')],
      req_params = [(''key'', key)],
      req_body = JsonBody (JObj [(''contents'',
                   JArr [JObj [(''parts'', JArr [JObj [(''text'', JStr prompt)]])]])]),
      req_timeout = Some 30\<rparr>"

text \<open>\<^verbatim>\<open>_generate_text_request\<close>.\<close>

definition generate_text_request :: "env \<Rightarrow> string \<Rightarrow> client \<Rightarrow> string io" where
  "generate_text_request ev prompt c =
     io_bind (io_lift (get_current_api_key c)) (\<lambda>key.
     io_bind (requests_post ev (text_request key prompt)) (\<lambda>resp.
     io_bind (raise_for_status resp) (\<lambda>_.
     io_bind (io_lift (json_result resp)) (\<lambda>result.
     io_lift (extract_text result)))))"

text \<open>\<^verbatim>\<open>generate_text\<close>.\<close>

definition generate_text ::
  "env \<Rightarrow> string \<Rightarrow> client \<Rightarrow> world \<Rightarrow> (exn + string) \<times> client \<times> world" where
  "generate_text ev prompt c w =
     make_request_with_retry (generate_text_request ev prompt) c w"

subsection \<open>Image generation\<close>

definition imagen_request :: "string \<Rightarrow> string \<Rightarrow> int \<Rightarrow> string \<Rightarrow> request" where
  "imagen_request key prompt sample_count aspect_ratio =
     \<lparr>req_url = imagen_url,
      req_headers = [(''Content-Type'', ''application/json''), (''x-goog-api-key'', key)],
      req_params = [],
      req_body = JsonBody (JObj
        [(''instances'', JArr [JObj [(''prompt'', JStr prompt)]]),
         (''parameters'', JObj [(''sampleCount'', JInt sample_count),
                                (''aspectRatio'', JStr aspect_ratio)])]),
      req_timeout = Some 60\<rparr>"

text \<open>\<^verbatim>\<open>base64.b64decode(image_data)\<close>: the decoder is the environment's; a value that is
  not a string is refused.\<close>

fun b64decode_value :: "env \<Rightarrow> json \<Rightarrow> exn + string" where
  "b64decode_value ev (JStr s) = b64decode ev s"
| "b64decode_value ev v =
     Inl (Exn TypeError
       (''argument should be a bytes-like object or ASCII string, not '' @
        quoted (py_type_name v)))"

text \<open>\<^verbatim>\<open>int(time.time())\<close>.\<close>

definition time_time :: "env \<Rightarrow> int io" where
  "time_time ev = (\<lambda>w. (Inr (clock ev (length (sent w))), w))"

text \<open>\<^verbatim>\<open>if not filename: filename = f"generated_image_{int(time.time())}.png"\<close>:
  \<^verbatim>\<open>None\<close> and the empty string both count as missing.\<close>

definition generated_name :: "env \<Rightarrow> string io" where
  "generated_name ev =
     io_bind (time_time ev) (\<lambda>t. io_return (''generated_image_'' @ str_int t @ ''.png''))"

definition ensure_filename :: "env \<Rightarrow> string option \<Rightarrow> string io" where
  "ensure_filename ev filename =
     (case filename of
        None \<Rightarrow> generated_name ev
      | Some s \<Rightarrow> if s = [] then generated_name ev else io_return s)"

text \<open>\<^verbatim>\<open>filename if sample_count == 1 else f"{filename.rstrip('.png')}_{idx+1}.png"\<close>.\<close>

definition out_name :: "int \<Rightarrow> string \<Rightarrow> nat \<Rightarrow> string" where
  "out_name sample_count filename idx =
     (if sample_count = 1 then filename
      else py_rstrip_chars ''.png'' filename @ ''_'' @ str_int (int idx + 1) @ ''.png'')"

text \<open>One pass of the loop body of \<^verbatim>\<open>_generate_image_request\<close>, on the prediction at
  position \<open>idx\<close>: the loop variables are the file name and the paths saved so far.\<close>

definition save_image ::
  "env \<Rightarrow> int \<Rightarrow> nat \<Rightarrow> json \<Rightarrow> string option \<Rightarrow> string list
     \<Rightarrow> (string option \<times> string list) io" where
  "save_image ev sample_count idx img_obj filename image_paths =
     io_bind (io_lift (py_get img_obj ''bytesBase64Encoded'' JNull)) (\<lambda>image_data.
       if py_truthy image_data then
         io_bind (io_lift (b64decode_value ev image_data)) (\<lambda>image_bytes.
         io_bind (ensure_filename ev filename) (\<lambda>fname.
         let image_path =
               path_join (module_dir ev) [''assets'', out_name sample_count fname idx]
         in io_bind (write_file ev image_path image_bytes) (\<lambda>_.
            io_return (Some fname, image_paths @ [image_path]))))
       else io_return (filename, image_paths))"

fun save_images ::
  "env \<Rightarrow> int \<Rightarrow> nat \<Rightarrow> json list \<Rightarrow> string option \<Rightarrow> string list \<Rightarrow> string list io" where
  "save_images ev sample_count idx [] filename image_paths w = (Inr image_paths, w)"
| "save_images ev sample_count idx (img_obj # rest) filename image_paths w =
     (case save_image ev sample_count idx img_obj filename image_paths w of
        (Inl e, w1) \<Rightarrow> (Inl e, w1)
      | (Inr (filename1, image_paths1), w1) \<Rightarrow>
          save_images ev sample_count (Suc idx) rest filename1 image_paths1 w1)"

text \<open>The two shapes \<^verbatim>\<open>_generate_image_request\<close> returns: one path, or a list of paths.\<close>

datatype image_result = OnePath string | Paths "string list"

text \<open>\<^verbatim>\<open>image_paths[0] if sample_count == 1 else image_paths\<close>.\<close>

definition select_result :: "int \<Rightarrow> string list \<Rightarrow> exn + image_result" where
  "select_result sample_count image_paths =
     (if sample_count = 1
      then (case image_paths of
              [] \<Rightarrow> Inl (Exn IndexError ''list index out of range'')
            | p # _ \<Rightarrow> Inr (OnePath p))
      else Inr (Paths image_paths))"

text \<open>\<^verbatim>\<open>_generate_image_request\<close>.\<close>

definition generate_image_request ::
  "env \<Rightarrow> string \<Rightarrow> int \<Rightarrow> string option \<Rightarrow> string \<Rightarrow> client \<Rightarrow> image_result io" where
  "generate_image_request ev prompt sample_count filename aspect_ratio c =
     io_bind (io_lift (get_current_api_key c)) (\<lambda>key.
     io_bind (requests_post ev (imagen_request key prompt sample_count aspect_ratio)) (\<lambda>resp.
     io_bind (raise_for_status resp) (\<lambda>_.
     io_bind (io_lift (json_result resp)) (\<lambda>result.
     io_bind (io_lift (py_get result ''predictions'' (JArr []))) (\<lambda>predictions.
     io_bind (io_lift (py_iter predictions)) (\<lambda>items.
     io_bind (save_images ev sample_count 0 items filename []) (\<lambda>image_paths.
     io_lift (select_result sample_count image_paths))))))))"

text \<open>\<^verbatim>\<open>generate_image\<close>.\<close>

definition generate_image ::
  "env \<Rightarrow> string \<Rightarrow> int \<Rightarrow> string option \<Rightarrow> string \<Rightarrow> client \<Rightarrow> world
     \<Rightarrow> (exn + image_result) \<times> client \<times> world" where
  "generate_image ev prompt sample_count filename aspect_ratio c w =
     make_request_with_retry
       (generate_image_request ev prompt sample_count filename aspect_ratio) c w"

subsection \<open>Image analysis\<close>

text \<open>\<^verbatim>\<open>_get_mime_type\<close>.\<close>

definition mime_types :: "(string \<times> string) list" where
  "mime_types =
     [(''.jpg'', ''image/jpeg''), (''.jpeg'', ''image/jpeg''), (''.png'', ''image/png''),
      (''.gif'', ''image/gif''), (''.webp'', ''image/webp'')]"

definition get_mime_type :: "string \<Rightarrow> string" where
  "get_mime_type image_path =
     (let ext = py_lower (splitext_ext image_path)
      in case map_of mime_types ext of Some m \<Rightarrow> m | None \<Rightarrow> ''image/jpeg'')"

definition io_catch :: "'a io \<Rightarrow> (exn \<Rightarrow> 'a io) \<Rightarrow> 'a io" where
  "io_catch m h = (\<lambda>w. case m w of (Inl e, w') \<Rightarrow> h e w' | (Inr x, w') \<Rightarrow> (Inr x, w'))"

definition upload_start_request :: "string \<Rightarrow> nat \<Rightarrow> string \<Rightarrow> string \<Rightarrow> request" where
  "upload_start_request key num_bytes mime_type display_name =
     \<lparr>req_url = upload_url,
      req_headers =
        [(''x-goog-api-key'', key),
         (''X-Goog-Upload-Protocol'', ''resumable''),
         (''X-Goog-Upload-Command'', ''start''),
         (''X-Goog-Upload-Header-Content-Length'', str_nat num_bytes),
         (''X-Goog-Upload-Header-Content-Type'', mime_type),
         (''Content-Type'', ''application/json'')],
      req_params = [],
      req_body = JsonBody (JObj [(''file'', JObj [(''display_name'', JStr display_name)])]),
      req_timeout = None\<rparr>"

definition upload_transfer_request :: "string \<Rightarrow> string \<Rightarrow> nat \<Rightarrow> string \<Rightarrow> request" where
  "upload_transfer_request target key num_bytes file_data =
     \<lparr>req_url = target,
      req_headers =
        [(''x-goog-api-key'', key),
         (''Content-Length'', str_nat num_bytes),
         (''X-Goog-Upload-Offset'', ''0''),
         (''X-Goog-Upload-Command'', ''upload, finalize'')],
      req_params = [],
      req_body = RawBody file_data,
      req_timeout = None\<rparr>"

text \<open>The body of the \<^verbatim>\<open>try\<close> block of \<^verbatim>\<open>_upload_image_to_gemini\<close>. The value returned
  is whatever the finalize response holds under \<^verbatim>\<open>file.uri\<close>, \<open>JNull\<close> when absent.\<close>

definition upload_body :: "env \<Rightarrow> string \<Rightarrow> client \<Rightarrow> json io" where
  "upload_body ev image_path c =
     (let mime_type = get_mime_type image_path in
      io_bind (io_lift (getsize ev image_path)) (\<lambda>num_bytes.
      let display_name = path_basename image_path in
      io_bind (io_lift (get_current_api_key c)) (\<lambda>key.
      io_bind (requests_post ev
                 (upload_start_request key num_bytes mime_type display_name)) (\<lambda>resp.
      io_bind (raise_for_status resp) (\<lambda>_.
      io_bind (case header_get resp ''X-Goog-Upload-URL'' of
                 None \<Rightarrow> io_raise (Exn PlainException ''No upload URL received'')
               | Some u \<Rightarrow>
                   if u = [] then io_raise (Exn PlainException ''No upload URL received'')
                   else io_return u) (\<lambda>target.
      io_bind (io_lift (read_rb ev image_path)) (\<lambda>file_data.
      io_bind (io_lift (get_current_api_key c)) (\<lambda>key2.
      io_bind (requests_post ev
                 (upload_transfer_request target key2 num_bytes file_data)) (\<lambda>upload_response.
      io_bind (raise_for_status upload_response) (\<lambda>_.
      io_bind (io_lift (json_result upload_response)) (\<lambda>file_info.
      io_bind (io_lift (py_get file_info ''file'' (JObj []))) (\<lambda>file_obj.
      io_lift (py_get file_obj ''uri'' JNull)))))))))))))"

text \<open>\<^verbatim>\<open>_upload_image_to_gemini\<close>: every exception of the body is caught and turned into
  \<^verbatim>\<open>None\<close>.\<close>

definition upload_image_to_gemini :: "env \<Rightarrow> string \<Rightarrow> client \<Rightarrow> json io" where
  "upload_image_to_gemini ev image_path c =
     io_catch (upload_body ev image_path c) (\<lambda>e. io_return JNull)"

definition upload_failed :: exn where
  "upload_failed = Exn PlainException ''Failed to upload image to Gemini''"

definition analysis_request :: "string \<Rightarrow> string \<Rightarrow> json \<Rightarrow> string \<Rightarrow> request" where
  "analysis_request key mime_type file_uri prompt =
     \<lparr>req_url = image_url,
      req_headers = [(''x-goog-api-key'', key), (''Content-Type'', ''application/json'')],
      req_params = [],
      req_body = JsonBody (JObj [(''contents'', JArr [JObj [(''parts'', JArr
        [JObj [(''file_data'', JObj [(''mime_type'', JStr mime_type),
                                     (''file_uri'', file_uri)])],
         JObj [(''text'', JStr prompt)]])]])]),
      req_timeout = None\<rparr>"

text \<open>\<^verbatim>\<open>_analyze_image_with_prompt_request\<close>.\<close>

definition analyze_image_with_prompt_request ::
  "env \<Rightarrow> string \<Rightarrow> string \<Rightarrow> client \<Rightarrow> string io" where
  "analyze_image_with_prompt_request ev image_path prompt c =
     io_bind (upload_image_to_gemini ev image_path c) (\<lambda>file_uri.
     if \<not> py_truthy file_uri then io_raise upload_failed
     else
       let mime_type = get_mime_type image_path in
       io_bind (io_lift (get_current_api_key c)) (\<lambda>key.
       io_bind (requests_post ev (analysis_request key mime_type file_uri prompt)) (\<lambda>resp.
       io_bind (raise_for_status resp) (\<lambda>_.
       io_bind (io_lift (json_result resp)) (\<lambda>result.
       io_lift (extract_text result))))))"

text \<open>\<^verbatim>\<open>analyze_image_with_prompt\<close>.\<close>

definition analyze_image_with_prompt ::
  "env \<Rightarrow> string \<Rightarrow> string \<Rightarrow> client \<Rightarrow> world \<Rightarrow> (exn + string) \<times> client \<times> world" where
  "analyze_image_with_prompt ev image_path prompt c w =
     make_request_with_retry (analyze_image_with_prompt_request ev image_path prompt) c w"

subsection \<open>Culture details\<close>

definition culture_prompt :: "string \<Rightarrow> string" where
  "culture_prompt culture =
     ''For the '' @ py_title culture @ '' culture, provide:'' @ [CHR 0x0A] @
     ''- 3 to 5 of the most iconic textile motifs or symbols (with names and meanings if possible)'' @ [CHR 0x0A] @
     ''- The traditional color palette (with color names or hex codes)'' @ [CHR 0x0A] @
     ''- The typical arrangement style of motifs (e.g., rows, bands, all-over, grid)'' @ [CHR 0x0A] @
     ''- Notable textile techniques or materials'' @ [CHR 0x0A] @
     ''- One or two '' @ quoted (''do'' @ [CHR 0x27] @ ''s and don'' @ [CHR 0x27] @ ''ts'') @
     '' for authentic design'' @ [CHR 0x0A] @
     ''Return your answer as a concise, richly descriptive paragraph.''"

text \<open>\<^verbatim>\<open>generate_culture_details\<close>: the \<^verbatim>\<open>try\<close> block returns the stripped text, or the
  empty string for an empty text; the handler returns the empty string.\<close>

definition generate_culture_details ::
  "env \<Rightarrow> string \<Rightarrow> client \<Rightarrow> world \<Rightarrow> (exn + string) \<times> client \<times> world" where
  "generate_culture_details ev culture c w =
     (let prompt = culture_prompt culture in
      case generate_text ev prompt c w of
        (Inr details, c1, w1) \<Rightarrow>
          (Inr (if details \<noteq> [] then py_strip details else []), c1, w1)
      | (Inl e, c1, w1) \<Rightarrow> (Inr [], c1, w1))"

section \<open>Vocabulary of the properties and concrete inputs\<close>

text \<open>A client with three credentials whose current index is the last position.\<close>

definition demo_client :: client where
  "demo_client =
     \<lparr>api_keys = [''k1'', ''k2'', ''k3''], current_key_index = 2, max_retries = 3,
      retry_delay_429 = 2000, retry_delay_503 = 3000, retry_delay_500 = 2000,
      attempts = 0, slept = []\<rparr>"

text \<open>A world in which nothing has been sent or written.\<close>

definition empty_world :: world where
  "empty_world = \<lparr>sent = [], written = []\<rparr>"

text \<open>Two errors a transport may raise, and an environment whose transport raises the
  given error for every request.\<close>

definition err_503 :: exn where
  "err_503 = Exn HTTPError ''503 Server Error: Service Unavailable''"

definition err_foo :: exn where
  "err_foo = Exn ConnectionError ''foo''"

definition env_raising :: "exn \<Rightarrow> env" where
  "env_raising e =
     \<lparr>transport = (\<lambda>n rq. Inl e), clock = (\<lambda>n. 1700000000), module_dir = ''/app'',
      b64decode = (\<lambda>s. Inr s), open_wb = (\<lambda>p. None), getsize = (\<lambda>p. Inr 4),
      read_rb = (\<lambda>p. Inr ''data'')\<rparr>"


definition text_response :: "string \<Rightarrow> response" where
  "text_response t =
     \<lparr>status_exn = None, header_get = (\<lambda>h. None),
      json_result = Inr (JObj [(''candidates'',
        JArr [JObj [(''content'', JObj [(''parts'', JArr [JObj [(''text'', JStr t)]])])]])])\<rparr>"


text \<open>A successful response without headers, and an environment whose transport answers
  every request with the given response.\<close>

definition bare_response :: response where
  "bare_response =
     \<lparr>status_exn = None, header_get = (\<lambda>h. None), json_result = Inr (JObj [])\<rparr>"

definition env_answering :: "response \<Rightarrow> env" where
  "env_answering r =
     \<lparr>transport = (\<lambda>n rq. Inr r), clock = (\<lambda>n. 1700000000), module_dir = ''/app'',
      b64decode = (\<lambda>s. Inr s), open_wb = (\<lambda>p. None), getsize = (\<lambda>p. Inr 4),
      read_rb = (\<lambda>p. Inr ''data'')\<rparr>"

text \<open>A prediction carries a payload when \<^verbatim>\<open>img_obj.get("bytesBase64Encoded")\<close> is
  truthy; its payload is decodable when it is a string the decoder accepts; a prediction
  is well formed when it is an object whose payload, if it carries one, is decodable.
  Then a response with the given predictions, and a prediction holding a payload.\<close>

definition carries_payload :: "json \<Rightarrow> bool" where
  "carries_payload p =
     (case py_get p ''bytesBase64Encoded'' JNull of Inl e \<Rightarrow> False | Inr v \<Rightarrow> py_truthy v)"

definition decodable_payload :: "env \<Rightarrow> json \<Rightarrow> bool" where
  "decodable_payload ev p =
     (case py_get p ''bytesBase64Encoded'' JNull of
        Inr (JStr d) \<Rightarrow> (case b64decode ev d of Inr b \<Rightarrow> True | Inl e \<Rightarrow> False)
      | _ \<Rightarrow> False)"

definition well_formed_prediction :: "env \<Rightarrow> json \<Rightarrow> bool" where
  "well_formed_prediction ev p =
     (case py_get p ''bytesBase64Encoded'' JNull of
        Inl e \<Rightarrow> False
      | Inr v \<Rightarrow> if py_truthy v then decodable_payload ev p else True)"

definition predictions_response :: "json list \<Rightarrow> response" where
  "predictions_response ps =
     \<lparr>status_exn = None, header_get = (\<lambda>h. None),
      json_result = Inr (JObj [(''predictions'', JArr ps)])\<rparr>"

definition image_payload :: "string \<Rightarrow> json" where
  "image_payload d = JObj [(''mimeType'', JStr ''image/png''), (''bytesBase64Encoded'', JStr d)]"

text \<open>Responses holding three and two images.\<close>

definition three_images :: "json list" where
  "three_images = [image_payload ''QUJD'', image_payload ''REVG'', image_payload ''R0hJ'']"

definition two_images :: "json list" where
  "two_images = [image_payload ''QUJD'', image_payload ''REVG'']"

section \<open>Properties\<close>

subsection \<open>Credential rotation\<close>

text \<open>
  C7. For every credential pool of size at least 1 and every current index that is a valid
  position, one rotation succeeds and sets the index to \<open>(i + 1) mod size\<close>; the new index
  is again a valid position, and the pool is the same list as before.
\<close>

theorem switch_api_key_rotates:
  assumes "1 \<le> length (api_keys c)" and "current_key_index c < length (api_keys c)"
  shows "switch_api_key c =
           Inr (c\<lparr>current_key_index := (current_key_index c + 1) mod length (api_keys c)\<rparr>)
         \<and> (current_key_index c + 1) mod length (api_keys c) < length (api_keys c)
         \<and> (\<forall>c'. switch_api_key c = Inr c' \<longrightarrow>
               api_keys c' = api_keys c \<and> current_key_index c' < length (api_keys c'))"
  using assms by (auto simp add: switch_api_key_def)

theorem switch_api_key_rotates_witness:
  "1 \<le> length (api_keys demo_client)
   \<and> current_key_index demo_client < length (api_keys demo_client)
   \<and> switch_api_key demo_client = Inr (demo_client\<lparr>current_key_index := 0\<rparr>)"
  using switch_api_key_rotates [of demo_client]
  by (simp add: demo_client_def)

subsection \<open>MIME types\<close>

lemma takeWhile_neq_all: "x \<notin> set xs \<Longrightarrow> takeWhile (\<lambda>c. c \<noteq> x) xs = xs"
  by (induction xs) auto

lemma takeWhile_neq_stop: "x \<notin> set xs \<Longrightarrow> takeWhile (\<lambda>c. c \<noteq> x) (xs @ x # ys) = xs"
  by (induction xs) auto

lemma path_basename_append:
  assumes "pre = [] \<or> last pre = CHR ''/''" and "CHR ''/'' \<notin> set name"
  shows "path_basename (pre @ name) = name"
proof (cases "pre = []")
  case True
  with assms(2) show ?thesis
    by (simp add: path_basename_def takeWhile_neq_all)
next
  case False
  with assms(1) obtain pre0 where pre: "pre = pre0 @ ''/''"
    by (metis append_butlast_last_id)
  have "takeWhile (\<lambda>c. c \<noteq> CHR ''/'') (rev name @ CHR ''/'' # rev pre0) = rev name"
    using assms(2) by (simp add: takeWhile_neq_stop)
  then show ?thesis by (simp add: path_basename_def pre)
qed

lemma splitext_ext_name:
  assumes "pre = [] \<or> last pre = CHR ''/''" and "CHR ''/'' \<notin> set stem"
    and "\<exists>c \<in> set stem. c \<noteq> CHR ''.''"
    and "CHR ''.'' \<notin> set ext" and "CHR ''/'' \<notin> set ext"
  shows "splitext_ext (pre @ stem @ CHR ''.'' # ext) = CHR ''.'' # ext"
proof -
  have bn: "path_basename (pre @ stem @ CHR ''.'' # ext) = stem @ ''.'' @ ext"
    using path_basename_append [of pre "stem @ CHR ''.'' # ext"] assms by simp
  have tw: "takeWhile (\<lambda>c. c \<noteq> CHR ''.'') (rev ext @ CHR ''.'' # rev stem) = rev ext"
    using assms(4) by (simp add: takeWhile_neq_stop)
  show ?thesis
    using assms(3) by (simp add: splitext_ext_def bn tw Let_def)
qed

lemma splitext_ext_no_dot:
  assumes "pre = [] \<or> last pre = CHR ''/''" and "CHR ''/'' \<notin> set stem"
    and "CHR ''.'' \<notin> set stem"
  shows "splitext_ext (pre @ stem) = []"
  using path_basename_append [OF assms(1,2)] assms(3) by (simp add: splitext_ext_def Let_def)

lemma py_lower_dot: "py_lower (CHR ''.'' # ext) = CHR ''.'' # py_lower ext"
  by (simp add: py_lower_def py_lower_char_def)

lemma py_lower_char_upper: "py_lower_char (py_upper_char c) = py_lower_char c"
  by (auto simp add: py_lower_char_def py_upper_char_def)

text \<open>
  C8. The MIME type is decided by the extension of the path, lower-cased, looked up in the
  fixed table \<open>.jpg\<close>/\<open>.jpeg\<close> to \<open>image/jpeg\<close>, \<open>.png\<close> to \<open>image/png\<close>, \<open>.gif\<close> to
  \<open>image/gif\<close>, \<open>.webp\<close> to \<open>image/webp\<close>, every other extension to \<open>image/jpeg\<close>. The path
  is a directory prefix, a file stem and an extension; since only the lower-cased extension
  is compared, \<open>.PNG\<close> in any mix of cases gives \<open>image/png\<close>, and \<open>.bmp\<close> gives the default.
  For an arbitrary path \<open>q\<close> the same table is applied to whatever extension it has.
\<close>

theorem get_mime_type_by_extension:
  assumes "pre = [] \<or> last pre = CHR ''/''" and "CHR ''/'' \<notin> set stem"
    and "\<exists>c \<in> set stem. c \<noteq> CHR ''.''"
    and "CHR ''.'' \<notin> set ext" and "CHR ''/'' \<notin> set ext"
  shows "get_mime_type (pre @ stem @ CHR ''.'' # ext) =
           (if py_lower ext = ''jpg'' \<or> py_lower ext = ''jpeg'' then ''image/jpeg''
            else if py_lower ext = ''png'' then ''image/png''
            else if py_lower ext = ''gif'' then ''image/gif''
            else if py_lower ext = ''webp'' then ''image/webp''
            else ''image/jpeg'')
         \<and> (py_lower ext = ''png'' \<longrightarrow> get_mime_type (pre @ stem @ CHR ''.'' # ext) = ''image/png'')
         \<and> get_mime_type (pre @ stem @ ''.bmp'') = ''image/jpeg''
         \<and> get_mime_type q =
             (if py_lower (splitext_ext q) = ''.jpg'' \<or> py_lower (splitext_ext q) = ''.jpeg''
              then ''image/jpeg''
              else if py_lower (splitext_ext q) = ''.png'' then ''image/png''
              else if py_lower (splitext_ext q) = ''.gif'' then ''image/gif''
              else if py_lower (splitext_ext q) = ''.webp'' then ''image/webp''
              else ''image/jpeg'')"
proof -
  have any: "get_mime_type q =
             (if py_lower (splitext_ext q) = ''.jpg'' \<or> py_lower (splitext_ext q) = ''.jpeg''
              then ''image/jpeg''
              else if py_lower (splitext_ext q) = ''.png'' then ''image/png''
              else if py_lower (splitext_ext q) = ''.gif'' then ''image/gif''
              else if py_lower (splitext_ext q) = ''.webp'' then ''image/webp''
              else ''image/jpeg'')"
    by (simp add: get_mime_type_def mime_types_def Let_def)
  have e: "splitext_ext (pre @ stem @ CHR ''.'' # ext) = CHR ''.'' # ext"
    using splitext_ext_name [OF assms] .
  have bmp: "splitext_ext (pre @ stem @ ''.bmp'') = ''.bmp''"
    using splitext_ext_name [OF assms(1,2,3), of "''bmp''"] by simp
  have one: "get_mime_type (pre @ stem @ CHR ''.'' # ext) =
           (if py_lower ext = ''jpg'' \<or> py_lower ext = ''jpeg'' then ''image/jpeg''
            else if py_lower ext = ''png'' then ''image/png''
            else if py_lower ext = ''gif'' then ''image/gif''
            else if py_lower ext = ''webp'' then ''image/webp''
            else ''image/jpeg'')"
    by (simp add: get_mime_type_def e py_lower_dot mime_types_def Let_def)
  have two: "get_mime_type (pre @ stem @ ''.bmp'') = ''image/jpeg''"
    by (simp add: get_mime_type_def bmp mime_types_def py_lower_def py_lower_char_def Let_def)
  from one two any show ?thesis by simp
qed

theorem get_mime_type_by_extension_witness:
  "get_mime_type ''/tmp/Photo.PnG'' = ''image/png''
   \<and> get_mime_type ''/tmp/Photo.bmp'' = ''image/jpeg''"
proof -
  have a: "''/tmp/'' = [] \<or> last ''/tmp/'' = CHR ''/''" by simp
  have b: "CHR ''/'' \<notin> set ''Photo''" by simp
  have c: "\<exists>ch \<in> set ''Photo''. ch \<noteq> CHR ''.''" by simp
  have d: "CHR ''.'' \<notin> set ''PnG''" "CHR ''/'' \<notin> set ''PnG''" by simp_all
  note t = get_mime_type_by_extension [OF a b c d]
  have "get_mime_type ''/tmp/Photo.PnG'' = ''image/png''"
    using t [THEN conjunct1] by (simp add: py_lower_def py_lower_char_def)
  moreover have "get_mime_type ''/tmp/Photo.bmp'' = ''image/jpeg''"
    using t [THEN conjunct2, THEN conjunct2, THEN conjunct1] by simp
  ultimately show ?thesis by (rule conjI)
qed

subsection \<open>The retry wrapper\<close>




lemma handle_error_unclassified:
  assumes "\<not> rate_limit_signal e" and "\<not> unavailable_signal e"
    and "\<not> internal_error_signal e" and "\<not> timeout_signal e"
  shows "handle_error e rc m c = (Inr False, c)"
  using assms
  by (simp add: handle_error_def rate_limit_signal_def unavailable_signal_def
      internal_error_signal_def timeout_signal_def Let_def)


lemma py_range_Suc: "0 \<le> m \<Longrightarrow> py_range (m + 1) = map int [0..<Suc (nat m)]"
  by (simp add: py_range_def nat_add_distrib)

lemma py_range_neg: "m < 0 \<Longrightarrow> py_range (m + 1) = []"
  by (simp add: py_range_def)


text \<open>The statement after the loop is reached only with a negative retry limit, and then
  no attempt has been made.\<close>

lemma exhausted_only_without_attempt:
  "max_retries c < 0 \<Longrightarrow>
     make_request_with_retry request_func c w = (Inl (exhausted_retries (max_retries c)), c, w)"
  by (simp add: make_request_with_retry_def py_range_neg)


lemma err_503_signals: "unavailable_signal err_503" "\<not> rate_limit_signal err_503"
  by (simp_all add: err_503_def unavailable_signal_def rate_limit_signal_def py_in_def
      py_lower_def py_lower_char_def sublist_code)

lemma text_request_raising:
  assumes "current_key_index c < length (api_keys c)"
  shows "generate_text_request (env_raising e) prompt c w =
           (Inl e, w\<lparr>sent := sent w @ [text_request (api_keys c ! current_key_index c) prompt]\<rparr>)"
  using assms
  by (simp add: generate_text_request_def get_current_api_key_def io_bind_def io_lift_def
      requests_post_def env_raising_def)





text \<open>
  C5. If the retry limit is not negative (so that the wrapper makes an attempt) and the
  request function raises an error whose lower-cased message contains none of the signal
  substrings, the wrapper fails with that same error after exactly one attempt, without
  sleeping and without rotating the credential.
\<close>

theorem unclassified_error_fails_fast:
  assumes "0 \<le> max_retries c"
    and "request_func c w = (Inl e, w')"
    and "\<not> rate_limit_signal e" and "\<not> unavailable_signal e"
    and "\<not> internal_error_signal e" and "\<not> timeout_signal e"
  shows "make_request_with_retry request_func c w =
           (Inl e, c\<lparr>attempts := attempts c + 1\<rparr>, w')
         \<and> slept (c\<lparr>attempts := attempts c + 1\<rparr>) = slept c
         \<and> current_key_index (c\<lparr>attempts := attempts c + 1\<rparr>) = current_key_index c"
proof -
  have "py_range (max_retries c + 1) = 0 # map int [1..<Suc (nat (max_retries c))]"
    using assms(1) by (simp add: py_range_Suc upt_conv_Cons del: upt_Suc)
  then show ?thesis
    using assms(2-) by (simp add: make_request_with_retry_def handle_error_unclassified)
qed

lemma err_foo_signals:
  "\<not> rate_limit_signal err_foo" "\<not> unavailable_signal err_foo"
  "\<not> internal_error_signal err_foo" "\<not> timeout_signal err_foo"
  by (simp_all add: err_foo_def rate_limit_signal_def unavailable_signal_def
      internal_error_signal_def timeout_signal_def py_in_def py_lower_def py_lower_char_def
      sublist_code)

theorem unclassified_error_fails_fast_witness:
  "0 \<le> max_retries demo_client
   \<and> generate_text_request (env_raising err_foo) ''hello'' demo_client empty_world =
       (Inl err_foo, empty_world\<lparr>sent := [text_request ''k3'' ''hello'']\<rparr>)
   \<and> \<not> rate_limit_signal err_foo \<and> \<not> unavailable_signal err_foo
   \<and> \<not> internal_error_signal err_foo \<and> \<not> timeout_signal err_foo
   \<and> generate_text (env_raising err_foo) ''hello'' demo_client empty_world =
       (Inl err_foo, demo_client\<lparr>attempts := 1\<rparr>,
        empty_world\<lparr>sent := [text_request ''k3'' ''hello'']\<rparr>)"
proof -
  have m: "0 \<le> max_retries demo_client" by (simp add: demo_client_def)
  have rq: "generate_text_request (env_raising err_foo) ''hello'' demo_client empty_world =
       (Inl err_foo, empty_world\<lparr>sent := [text_request ''k3'' ''hello'']\<rparr>)"
    using text_request_raising [of demo_client err_foo "''hello''" empty_world]
    by (simp add: demo_client_def empty_world_def)
  show ?thesis
    using unclassified_error_fails_fast
      [of demo_client "generate_text_request (env_raising err_foo) ''hello''" empty_world
        err_foo "empty_world\<lparr>sent := [text_request ''k3'' ''hello'']\<rparr>",
       OF m rq err_foo_signals] m rq err_foo_signals
    by (simp add: generate_text_def demo_client_def)
qed

subsection \<open>Text generation under rate limiting\<close>








subsection \<open>Image analysis and the upload sub-protocol\<close>

lemma upload_body_failure_swallowed:
  assumes "upload_body ev image_path c w = (Inl e, w1)"
  shows "upload_image_to_gemini ev image_path c w = (Inr JNull, w1)"
  using assms by (simp add: upload_image_to_gemini_def io_catch_def io_return_def)

lemma upload_image_never_raises:
  "\<exists>v w1. upload_image_to_gemini ev image_path c w = (Inr v, w1)"
  by (cases "upload_body ev image_path c w")
     (auto simp add: upload_image_to_gemini_def io_catch_def io_return_def split: sum.splits)

lemma analyze_request_upload_failed:
  assumes "upload_body ev image_path c w = (Inl e, w1)"
  shows "analyze_image_with_prompt_request ev image_path prompt c w = (Inl upload_failed, w1)"
  using upload_body_failure_swallowed [OF assms]
  by (simp add: analyze_image_with_prompt_request_def io_bind_def io_raise_def)

lemma upload_failed_signals:
  "\<not> rate_limit_signal upload_failed" "\<not> unavailable_signal upload_failed"
  "\<not> internal_error_signal upload_failed" "\<not> timeout_signal upload_failed"
  by (simp_all add: upload_failed_def rate_limit_signal_def unavailable_signal_def
      internal_error_signal_def timeout_signal_def py_in_def py_lower_def py_lower_char_def
      sublist_code)

text \<open>
  An error without any signal ends the wrapper at the first attempt.
\<close>

lemma retry_unclassified_once:
  assumes "0 \<le> max_retries c"
    and "request_func c w = (Inl e, w')"
    and "\<not> rate_limit_signal e" and "\<not> unavailable_signal e"
    and "\<not> internal_error_signal e" and "\<not> timeout_signal e"
  shows "make_request_with_retry request_func c w =
           (Inl e, c\<lparr>attempts := attempts c + 1\<rparr>, w')"
proof -
  have "py_range (max_retries c + 1) = 0 # map int [1..<Suc (nat (max_retries c))]"
    using assms(1) by (simp add: py_range_Suc upt_conv_Cons del: upt_Suc)
  then show ?thesis
    using assms(2-) by (simp add: make_request_with_retry_def handle_error_unclassified)
qed

lemma analyze_upload_failed_once:
  assumes "0 \<le> max_retries c" and "upload_body ev image_path c w = (Inl e, w1)"
  shows "analyze_image_with_prompt ev image_path prompt c w =
           (Inl upload_failed, c\<lparr>attempts := attempts c + 1\<rparr>, w1)"
  unfolding analyze_image_with_prompt_def
  using retry_unclassified_once
    [of c "analyze_image_with_prompt_request ev image_path prompt" w upload_failed w1,
     OF assms(1) analyze_request_upload_failed [OF assms(2)] upload_failed_signals] .

lemma upload_body_start_raises:
  assumes "getsize ev image_path = Inr nb"
    and "current_key_index c < length (api_keys c)"
    and "post_raises ev (length (sent w))
           (upload_start_request (api_keys c ! current_key_index c) nb
              (get_mime_type image_path) (path_basename image_path)) = Some e"
  shows "upload_body ev image_path c w =
           (Inl e, w\<lparr>sent := sent w @
              [upload_start_request (api_keys c ! current_key_index c) nb
                 (get_mime_type image_path) (path_basename image_path)]\<rparr>)"
  using assms
  by (auto simp add: upload_body_def Let_def get_current_api_key_def io_bind_def io_lift_def
      requests_post_def post_raises_def raise_for_status_def io_raise_def io_return_def
      split: sum.splits option.splits)

text \<open>A failure of the transfer phase, after a start phase that named a target.\<close>

lemma upload_body_transfer_raises:
  assumes "getsize ev image_path = Inr nb"
    and "current_key_index c < length (api_keys c)"
    and "transport ev (length (sent w))
           (upload_start_request (api_keys c ! current_key_index c) nb
              (get_mime_type image_path) (path_basename image_path)) = Inr resp"
    and "status_exn resp = None"
    and "header_get resp ''X-Goog-Upload-URL'' = Some target" and "target \<noteq> []"
    and "read_rb ev image_path = Inr file_data"
    and "post_raises ev (Suc (length (sent w)))
           (upload_transfer_request target (api_keys c ! current_key_index c) nb file_data)
         = Some e"
  shows "upload_body ev image_path c w =
           (Inl e, w\<lparr>sent := sent w @
              [upload_start_request (api_keys c ! current_key_index c) nb
                 (get_mime_type image_path) (path_basename image_path),
               upload_transfer_request target (api_keys c ! current_key_index c) nb
                 file_data]\<rparr>)"
  using assms
  by (auto simp add: upload_body_def Let_def get_current_api_key_def io_bind_def io_lift_def
      requests_post_def post_raises_def raise_for_status_def io_raise_def io_return_def
      split: sum.splits option.splits)

lemma upload_body_no_target:
  assumes "getsize ev image_path = Inr nb"
    and "current_key_index c < length (api_keys c)"
    and "transport ev (length (sent w))
           (upload_start_request (api_keys c ! current_key_index c) nb
              (get_mime_type image_path) (path_basename image_path)) = Inr resp"
    and "header_get resp ''X-Goog-Upload-URL'' = None
         \<or> header_get resp ''X-Goog-Upload-URL'' = Some []"
  shows "\<exists>e. upload_body ev image_path c w =
           (Inl e, w\<lparr>sent := sent w @
              [upload_start_request (api_keys c ! current_key_index c) nb
                 (get_mime_type image_path) (path_basename image_path)]\<rparr>)"
  using assms
  by (auto simp add: upload_body_def Let_def get_current_api_key_def io_bind_def io_lift_def
      requests_post_def raise_for_status_def io_raise_def io_return_def
      split: sum.splits option.splits)

lemma upload_url_not_image_url: "upload_url \<noteq> image_url"
  by (simp add: upload_url_def image_url_def)

text \<open>
  C2 (amended). Whenever the body of the upload sub-protocol raises (an HTTP failure of
  the start or the transfer phase, or any other error), the sub-protocol is not repeated:
  the upload returns no reference, the attempt raises the fixed upload failure, and,
  because the message of that failure carries none of the signals of the retry wrapper, the
  whole operation fails with it after exactly one attempt, whatever the class of the error
  that broke the upload.
\<close>

theorem upload_failure_not_retried:
  assumes "0 \<le> max_retries c" and "upload_body ev image_path c w = (Inl e, w1)"
  shows "upload_image_to_gemini ev image_path c w = (Inr JNull, w1)
         \<and> analyze_image_with_prompt_request ev image_path prompt c w = (Inl upload_failed, w1)
         \<and> analyze_image_with_prompt ev image_path prompt c w =
             (Inl upload_failed, c\<lparr>attempts := attempts c + 1\<rparr>, w1)"
  using upload_body_failure_swallowed [OF assms(2)] analyze_request_upload_failed [OF assms(2)]
    analyze_upload_failed_once [OF assms]
  by simp

lemma upload_body_503_demo:
  "upload_body (env_raising err_503) ''/img/a.png'' demo_client empty_world =
     (Inl err_503,
      empty_world\<lparr>sent := [upload_start_request ''k3'' 4 ''image/png'' ''a.png'']\<rparr>)"
proof -
  have "get_mime_type ''/img/a.png'' = ''image/png''"
    by (simp add: get_mime_type_def splitext_ext_def path_basename_def mime_types_def
        py_lower_def py_lower_char_def Let_def)
  moreover have "path_basename ''/img/a.png'' = ''a.png''"
    by (simp add: path_basename_def)
  ultimately show ?thesis
    using upload_body_start_raises [of "env_raising err_503" "''/img/a.png''" 4 demo_client
        empty_world err_503]
    by (simp add: env_raising_def demo_client_def empty_world_def post_raises_def)
qed

theorem upload_failure_not_retried_witness:
  "0 \<le> max_retries demo_client
   \<and> upload_body (env_raising err_503) ''/img/a.png'' demo_client empty_world =
       (Inl err_503,
        empty_world\<lparr>sent := [upload_start_request ''k3'' 4 ''image/png'' ''a.png'']\<rparr>)
   \<and> analyze_image_with_prompt (env_raising err_503) ''/img/a.png'' ''describe''
         demo_client empty_world =
       (Inl upload_failed, demo_client\<lparr>attempts := 1\<rparr>,
        empty_world\<lparr>sent := [upload_start_request ''k3'' 4 ''image/png'' ''a.png'']\<rparr>)"
proof -
  have m: "0 \<le> max_retries demo_client" by (simp add: demo_client_def)
  show ?thesis
    using upload_failure_not_retried [OF m upload_body_503_demo, of "''describe''"] m
      upload_body_503_demo
    by (simp add: demo_client_def)
qed

text \<open>
  With three retries configured and a transport that answers the upload start with a 503
  error, the operation makes one attempt and does not sleep.
\<close>

theorem upload_failure_retried_counterexample:
  "unavailable_signal err_503
   \<and> post_raises (env_raising err_503) 0
        (upload_start_request ''k3'' 4 ''image/png'' ''a.png'') = Some err_503
   \<and> max_retries demo_client = 3
   \<and> attempts demo_client = 0
   \<and> fst (analyze_image_with_prompt (env_raising err_503) ''/img/a.png'' ''describe''
            demo_client empty_world) = Inl upload_failed
   \<and> attempts (fst (snd (analyze_image_with_prompt (env_raising err_503) ''/img/a.png''
            ''describe'' demo_client empty_world))) = 1
   \<and> slept (fst (snd (analyze_image_with_prompt (env_raising err_503) ''/img/a.png''
            ''describe'' demo_client empty_world))) = []"
proof -
  have m: "0 \<le> max_retries demo_client" by (simp add: demo_client_def)
  have "analyze_image_with_prompt (env_raising err_503) ''/img/a.png'' ''describe''
         demo_client empty_world =
       (Inl upload_failed, demo_client\<lparr>attempts := attempts demo_client + 1\<rparr>,
        empty_world\<lparr>sent := [upload_start_request ''k3'' 4 ''image/png'' ''a.png'']\<rparr>)"
    using analyze_upload_failed_once [OF m upload_body_503_demo] .
  then show ?thesis
    using err_503_signals(1)
    by (simp add: demo_client_def post_raises_def env_raising_def)
qed

text \<open>
  C6. When the response to the upload start lacks the upload-target header (absent or
  empty), the operation fails with the upload failure, and the only request it has sent is
  the upload start: the requests to the content-analysis endpoint are those sent before.
\<close>

theorem analyze_without_upload_target:
  assumes "0 \<le> max_retries c"
    and "getsize ev image_path = Inr nb"
    and "current_key_index c < length (api_keys c)"
    and "transport ev (length (sent w))
           (upload_start_request (api_keys c ! current_key_index c) nb
              (get_mime_type image_path) (path_basename image_path)) = Inr resp"
    and "header_get resp ''X-Goog-Upload-URL'' = None
         \<or> header_get resp ''X-Goog-Upload-URL'' = Some []"
  shows "\<exists>w1. analyze_image_with_prompt ev image_path prompt c w =
                (Inl upload_failed, c\<lparr>attempts := attempts c + 1\<rparr>, w1)
              \<and> sent w1 = sent w @
                   [upload_start_request (api_keys c ! current_key_index c) nb
                      (get_mime_type image_path) (path_basename image_path)]
              \<and> filter (\<lambda>rq. req_url rq = image_url) (sent w1)
                 = filter (\<lambda>rq. req_url rq = image_url) (sent w)"
proof -
  let ?rq = "upload_start_request (api_keys c ! current_key_index c) nb
               (get_mime_type image_path) (path_basename image_path)"
  obtain e where b: "upload_body ev image_path c w = (Inl e, w\<lparr>sent := sent w @ [?rq]\<rparr>)"
    using upload_body_no_target [OF assms(2-5)] by blast
  have u: "req_url ?rq \<noteq> image_url"
    using upload_url_not_image_url by (simp add: upload_start_request_def)
  have "analyze_image_with_prompt ev image_path prompt c w =
          (Inl upload_failed, c\<lparr>attempts := attempts c + 1\<rparr>, w\<lparr>sent := sent w @ [?rq]\<rparr>)"
    using analyze_upload_failed_once [OF assms(1) b] .
  then show ?thesis using u by simp
qed

theorem analyze_without_upload_target_witness:
  "0 \<le> max_retries demo_client
   \<and> getsize (env_answering bare_response) ''/img/a.png'' = Inr 4
   \<and> current_key_index demo_client < length (api_keys demo_client)
   \<and> transport (env_answering bare_response) (length (sent empty_world))
         (upload_start_request ''k3'' 4 ''image/png'' ''a.png'') = Inr bare_response
   \<and> header_get bare_response ''X-Goog-Upload-URL'' = None
   \<and> (\<exists>w1. analyze_image_with_prompt (env_answering bare_response) ''/img/a.png''
               ''describe'' demo_client empty_world =
               (Inl upload_failed, demo_client\<lparr>attempts := 1\<rparr>, w1)
            \<and> sent w1 = [upload_start_request ''k3'' 4 ''image/png'' ''a.png'']
            \<and> filter (\<lambda>rq. req_url rq = image_url) (sent w1) = [])"
proof -
  have mt: "get_mime_type ''/img/a.png'' = ''image/png''"
    by (simp add: get_mime_type_def splitext_ext_def path_basename_def mime_types_def
        py_lower_def py_lower_char_def Let_def)
  have bn: "path_basename ''/img/a.png'' = ''a.png''"
    by (simp add: path_basename_def)
  have a1: "0 \<le> max_retries demo_client" by (simp add: demo_client_def)
  have a2: "getsize (env_answering bare_response) ''/img/a.png'' = Inr 4"
    by (simp add: env_answering_def)
  have a3: "current_key_index demo_client < length (api_keys demo_client)"
    by (simp add: demo_client_def)
  have a4: "transport (env_answering bare_response) (length (sent empty_world))
         (upload_start_request (api_keys demo_client ! current_key_index demo_client) 4
            (get_mime_type ''/img/a.png'') (path_basename ''/img/a.png'')) = Inr bare_response"
    by (simp add: env_answering_def)
  have a5: "header_get bare_response ''X-Goog-Upload-URL'' = None
            \<or> header_get bare_response ''X-Goog-Upload-URL'' = Some []"
    by (simp add: bare_response_def)
  have k: "api_keys demo_client ! current_key_index demo_client = ''k3''"
    by (simp add: demo_client_def)
  have d: "demo_client\<lparr>attempts := attempts demo_client + 1\<rparr> = demo_client\<lparr>attempts := 1\<rparr>"
    by (simp add: demo_client_def)
  have e: "sent empty_world = []" by (simp add: empty_world_def)
  show ?thesis
    using analyze_without_upload_target [OF a1 a2 a3 a4 a5, of "''describe''"] a1 a2 a3
    unfolding mt bn k d e
    by (simp add: env_answering_def bare_response_def)
qed

subsection \<open>Culture details\<close>

lemma py_strip_Nil: "py_strip [] = []"
  by (simp add: py_strip_def)

text \<open>
  C10. For every culture string, \<^verbatim>\<open>generate_culture_details\<close> returns a string and never
  raises: when text generation returns a text, the result is that text trimmed; when text
  generation fails with any error (the exception after the loop, an unclassified error, or
  any other), the result is the empty string and the error is dropped.
\<close>

theorem generate_culture_details_never_raises:
  "(\<exists>t c1 w1. generate_culture_details ev culture c w = (Inr t, c1, w1))
   \<and> (\<forall>d c1 w1. generate_text ev (culture_prompt culture) c w = (Inr d, c1, w1) \<longrightarrow>
          generate_culture_details ev culture c w = (Inr (py_strip d), c1, w1))
   \<and> (\<forall>e c1 w1. generate_text ev (culture_prompt culture) c w = (Inl e, c1, w1) \<longrightarrow>
          generate_culture_details ev culture c w = (Inr [], c1, w1))"
proof -
  obtain r c1 w1 where g: "generate_text ev (culture_prompt culture) c w = (r, c1, w1)"
    by (metis prod_cases3)
  show ?thesis
  proof (cases r)
    case (Inl e)
    with g show ?thesis by (simp add: generate_culture_details_def)
  next
    case (Inr d)
    with g show ?thesis by (simp add: generate_culture_details_def py_strip_Nil)
  qed
qed

lemma text_request_answered:
  assumes "current_key_index c < length (api_keys c)"
  shows "generate_text_request (env_answering (text_response t)) prompt c w =
           (Inr (py_strip t),
            w\<lparr>sent := sent w @ [text_request (api_keys c ! current_key_index c) prompt]\<rparr>)"
  using assms
  by (simp add: generate_text_request_def get_current_api_key_def io_bind_def io_lift_def
      requests_post_def raise_for_status_def io_return_def env_answering_def text_response_def
      extract_text_def exn_bind_def)

text \<open>
  Text generation against a transport that answers at once, and against one that raises
  an unclassified error.
\<close>

lemma generate_text_answered_demo:
  "generate_text (env_answering (text_response '' Hi there '')) prompt demo_client empty_world =
     (Inr ''Hi there'', demo_client\<lparr>attempts := 1\<rparr>,
      empty_world\<lparr>sent := [text_request ''k3'' prompt]\<rparr>)"
proof -
  have r: "py_range (max_retries demo_client + 1) = [0, 1, 2, 3]"
    by (simp add: py_range_def demo_client_def upt_conv_Cons)
  have s: "py_strip '' Hi there '' = ''Hi there''"
    by (simp add: py_strip_def py_isspace_def)
  show ?thesis
    unfolding generate_text_def make_request_with_retry_def r
    by (simp add: text_request_answered s demo_client_def empty_world_def)
qed

lemma generate_text_foo_demo:
  "generate_text (env_raising err_foo) prompt demo_client empty_world =
     (Inl err_foo, demo_client\<lparr>attempts := 1\<rparr>,
      empty_world\<lparr>sent := [text_request ''k3'' prompt]\<rparr>)"
proof -
  have m: "0 \<le> max_retries demo_client" by (simp add: demo_client_def)
  have rq: "generate_text_request (env_raising err_foo) prompt demo_client empty_world =
       (Inl err_foo, empty_world\<lparr>sent := [text_request ''k3'' prompt]\<rparr>)"
    using text_request_raising [of demo_client err_foo prompt empty_world]
    by (simp add: demo_client_def empty_world_def)
  show ?thesis
    using retry_unclassified_once
      [of demo_client "generate_text_request (env_raising err_foo) prompt" empty_world
        err_foo "empty_world\<lparr>sent := [text_request ''k3'' prompt]\<rparr>",
       OF m rq err_foo_signals]
    by (simp add: generate_text_def demo_client_def)
qed

theorem generate_culture_details_never_raises_witness:
  "generate_text (env_answering (text_response '' Hi there '')) (culture_prompt ''yoruba'')
       demo_client empty_world =
     (Inr ''Hi there'', demo_client\<lparr>attempts := 1\<rparr>,
      empty_world\<lparr>sent := [text_request ''k3'' (culture_prompt ''yoruba'')]\<rparr>)
   \<and> generate_culture_details (env_answering (text_response '' Hi there '')) ''yoruba''
       demo_client empty_world =
     (Inr ''Hi there'', demo_client\<lparr>attempts := 1\<rparr>,
      empty_world\<lparr>sent := [text_request ''k3'' (culture_prompt ''yoruba'')]\<rparr>)
   \<and> generate_text (env_raising err_foo) (culture_prompt ''yoruba'') demo_client empty_world =
     (Inl err_foo, demo_client\<lparr>attempts := 1\<rparr>,
      empty_world\<lparr>sent := [text_request ''k3'' (culture_prompt ''yoruba'')]\<rparr>)
   \<and> generate_culture_details (env_raising err_foo) ''yoruba'' demo_client empty_world =
     (Inr [], demo_client\<lparr>attempts := 1\<rparr>,
      empty_world\<lparr>sent := [text_request ''k3'' (culture_prompt ''yoruba'')]\<rparr>)"
proof -
  have s: "py_strip ''Hi there'' = ''Hi there''"
    by (simp add: py_strip_def py_isspace_def)
  have a: "generate_culture_details (env_answering (text_response '' Hi there '')) ''yoruba''
       demo_client empty_world =
     (Inr ''Hi there'', demo_client\<lparr>attempts := 1\<rparr>,
      empty_world\<lparr>sent := [text_request ''k3'' (culture_prompt ''yoruba'')]\<rparr>)"
    using generate_culture_details_never_raises
      [of "env_answering (text_response '' Hi there '')" "''yoruba''" demo_client empty_world]
      generate_text_answered_demo [of "culture_prompt ''yoruba''"] s
    by simp
  have b: "generate_culture_details (env_raising err_foo) ''yoruba'' demo_client empty_world =
     (Inr [], demo_client\<lparr>attempts := 1\<rparr>,
      empty_world\<lparr>sent := [text_request ''k3'' (culture_prompt ''yoruba'')]\<rparr>)"
    using generate_culture_details_never_raises
      [of "env_raising err_foo" "''yoruba''" demo_client empty_world]
      generate_text_foo_demo [of "culture_prompt ''yoruba''"]
    by simp
  from a b generate_text_answered_demo generate_text_foo_demo show ?thesis by simp
qed

subsection \<open>Image generation\<close>

lemma save_image_skip:
  assumes "well_formed_prediction ev p" and "\<not> carries_payload p"
  shows "save_image ev sc idx p fn paths w = (Inr (fn, paths), w)"
  using assms
  by (auto simp add: save_image_def well_formed_prediction_def carries_payload_def io_bind_def
      io_lift_def io_return_def split: sum.splits)

lemma save_image_store:
  assumes "well_formed_prediction ev p" and "carries_payload p" and "fname \<noteq> []"
    and "open_wb ev (path_join (module_dir ev) [''assets'', out_name sc fname idx]) = None"
  shows "\<exists>w'. save_image ev sc idx p (Some fname) paths w =
           (Inr (Some fname,
                 paths @ [path_join (module_dir ev) [''assets'', out_name sc fname idx]]), w')
         \<and> sent w' = sent w"
  using assms
  by (auto simp add: save_image_def well_formed_prediction_def carries_payload_def
      decodable_payload_def io_bind_def io_lift_def io_return_def ensure_filename_def
      write_file_def Let_def split: sum.splits json.splits)

text \<open>
  The loop over well-formed predictions with a file name at hand: one path for each
  prediction carrying a payload, in the order of the response, named after the position of
  the prediction in the response.
\<close>

lemma save_images_well_formed:
  assumes "\<forall>p \<in> set items. well_formed_prediction ev p"
    and "\<forall>path. open_wb ev path = None" and "fname \<noteq> []"
  shows "\<exists>w'. save_images ev sc idx items (Some fname) paths w =
           (Inr (paths @
                 map (\<lambda>(i, p). path_join (module_dir ev) [''assets'', out_name sc fname i])
                   (filter (\<lambda>(i, p). carries_payload p) (enumerate idx items))), w')
         \<and> sent w' = sent w"
  using assms(1)
proof (induction items arbitrary: idx paths w)
  case Nil
  then show ?case by simp
next
  case (Cons p items)
  show ?case
  proof (cases "carries_payload p")
    case False
    have "save_image ev sc idx p (Some fname) paths w = (Inr (Some fname, paths), w)"
      using save_image_skip Cons.prems False by simp
    moreover obtain w' where
      "save_images ev sc (Suc idx) items (Some fname) paths w =
         (Inr (paths @
            map (\<lambda>(i, p). path_join (module_dir ev) [''assets'', out_name sc fname i])
              (filter (\<lambda>(i, p). carries_payload p) (enumerate (Suc idx) items))), w')"
      "sent w' = sent w"
      using Cons.IH [of "Suc idx" paths w] Cons.prems by auto
    ultimately show ?thesis using False by simp
  next
    case True
    let ?path = "path_join (module_dir ev) [''assets'', out_name sc fname idx]"
    obtain w1 where s:
      "save_image ev sc idx p (Some fname) paths w = (Inr (Some fname, paths @ [?path]), w1)"
      "sent w1 = sent w"
      using save_image_store [of ev p fname sc idx paths w] Cons.prems True assms(2,3)
      by auto
    obtain w' where
      "save_images ev sc (Suc idx) items (Some fname) (paths @ [?path]) w1 =
         (Inr ((paths @ [?path]) @
            map (\<lambda>(i, p). path_join (module_dir ev) [''assets'', out_name sc fname i])
              (filter (\<lambda>(i, p). carries_payload p) (enumerate (Suc idx) items))), w')"
      "sent w' = sent w1"
      using Cons.IH [of "Suc idx" "paths @ [?path]" w1] Cons.prems by auto
    with s True show ?thesis by simp
  qed
qed

text \<open>
  A request function that returns at the first attempt.
\<close>

lemma retry_first_success:
  assumes "0 \<le> max_retries c" and "request_func c w = (Inr v, w1)"
  shows "make_request_with_retry request_func c w = (Inr v, c\<lparr>attempts := attempts c + 1\<rparr>, w1)"
proof -
  have "py_range (max_retries c + 1) = 0 # map int [1..<Suc (nat (max_retries c))]"
    using assms(1) by (simp add: py_range_Suc upt_conv_Cons del: upt_Suc)
  then show ?thesis
    using assms(2) by (simp add: make_request_with_retry_def)
qed

lemma generate_image_request_answered:
  assumes "current_key_index c < length (api_keys c)"
    and "transport ev (length (sent w))
           (imagen_request (api_keys c ! current_key_index c) prompt sc aspect) = Inr resp"
    and "status_exn resp = None" and "json_result resp = Inr js"
    and "py_get js ''predictions'' (JArr []) = Inr preds" and "py_iter preds = Inr items"
  shows "generate_image_request ev prompt sc fn aspect c w =
           io_bind (save_images ev sc 0 items fn [])
             (\<lambda>image_paths. io_lift (select_result sc image_paths))
             (w\<lparr>sent := sent w @
                 [imagen_request (api_keys c ! current_key_index c) prompt sc aspect]\<rparr>)"
  using assms
  by (simp add: generate_image_request_def get_current_api_key_def io_bind_def io_lift_def
      requests_post_def raise_for_status_def io_return_def)

lemma index_error_signals:
  "\<not> rate_limit_signal (Exn IndexError ''list index out of range'')"
  "\<not> unavailable_signal (Exn IndexError ''list index out of range'')"
  "\<not> internal_error_signal (Exn IndexError ''list index out of range'')"
  "\<not> timeout_signal (Exn IndexError ''list index out of range'')"
  by (simp_all add: rate_limit_signal_def unavailable_signal_def
      internal_error_signal_def timeout_signal_def py_in_def py_lower_def py_lower_char_def
      sublist_code)

lemma save_images_skip_all:
  assumes "\<forall>p \<in> set items. well_formed_prediction ev p \<and> \<not> carries_payload p"
  shows "save_images ev sc idx items fn paths w = (Inr paths, w)"
  using assms
  by (induction items arbitrary: idx) (simp_all add: save_image_skip)

lemma generate_image_none_saved:
  assumes "0 \<le> max_retries c"
    and "current_key_index c < length (api_keys c)"
    and "transport ev (length (sent w))
           (imagen_request (api_keys c ! current_key_index c) prompt 1 aspect) = Inr resp"
    and "status_exn resp = None" and "json_result resp = Inr js"
    and "py_get js ''predictions'' (JArr []) = Inr preds" and "py_iter preds = Inr items"
    and "\<forall>p \<in> set items. well_formed_prediction ev p \<and> \<not> carries_payload p"
  shows "generate_image ev prompt 1 filename aspect c w =
           (Inl (Exn IndexError ''list index out of range''),
            c\<lparr>attempts := attempts c + 1\<rparr>,
            w\<lparr>sent := sent w @
                [imagen_request (api_keys c ! current_key_index c) prompt 1 aspect]\<rparr>)"
proof -
  let ?w1 = "w\<lparr>sent := sent w @
                [imagen_request (api_keys c ! current_key_index c) prompt 1 aspect]\<rparr>"
  have "generate_image_request ev prompt 1 filename aspect c w =
          (Inl (Exn IndexError ''list index out of range''), ?w1)"
    using generate_image_request_answered [OF assms(2-7), of filename]
      save_images_skip_all [OF assms(8)]
    by (simp add: io_bind_def io_lift_def select_result_def)
  then show ?thesis
    unfolding generate_image_def
    using retry_unclassified_once
      [of c "generate_image_request ev prompt 1 filename aspect" w
        "Exn IndexError ''list index out of range''" ?w1, OF assms(1) _ index_error_signals]
    by simp
qed

text \<open>
  C9. There are successful image-generation responses for which image generation with
  \<open>sample_count = 1\<close> does not return a path: whenever no prediction of the response
  carries a payload (in particular when the list of predictions is empty), the loop saves
  nothing, indexing the first element of the empty list of paths raises \<open>IndexError\<close>,
  and, that error being unclassified, the public operation fails with it after one attempt.
\<close>

theorem generate_image_single_index_error:
  assumes "0 \<le> max_retries c"
    and "current_key_index c < length (api_keys c)"
    and "transport ev (length (sent w))
           (imagen_request (api_keys c ! current_key_index c) prompt 1 aspect) = Inr resp"
    and "status_exn resp = None" and "json_result resp = Inr js"
    and "py_get js ''predictions'' (JArr []) = Inr preds" and "py_iter preds = Inr items"
    and "\<forall>p \<in> set items. well_formed_prediction ev p \<and> \<not> carries_payload p"
  shows "save_images ev 1 0 items filename [] w1 = (Inr [], w1)
         \<and> select_result 1 [] = Inl (Exn IndexError ''list index out of range'')
         \<and> generate_image ev prompt 1 filename aspect c w =
             (Inl (Exn IndexError ''list index out of range''),
              c\<lparr>attempts := attempts c + 1\<rparr>,
              w\<lparr>sent := sent w @
                  [imagen_request (api_keys c ! current_key_index c) prompt 1 aspect]\<rparr>)"
  using save_images_skip_all [OF assms(8)] generate_image_none_saved [OF assms]
  by (simp add: select_result_def)

theorem generate_image_single_index_error_witness:
  "0 \<le> max_retries demo_client
   \<and> status_exn (predictions_response []) = None
   \<and> json_result (predictions_response []) = Inr (JObj [(''predictions'', JArr [])])
   \<and> generate_image (env_answering (predictions_response [])) ''a pattern'' 1
         (Some ''test_pattern.png'') ''1:1'' demo_client empty_world =
       (Inl (Exn IndexError ''list index out of range''), demo_client\<lparr>attempts := 1\<rparr>,
        empty_world\<lparr>sent := [imagen_request ''k3'' ''a pattern'' 1 ''1:1'']\<rparr>)"
proof -
  let ?ev = "env_answering (predictions_response [])"
  have a1: "0 \<le> max_retries demo_client" by (simp add: demo_client_def)
  have a2: "current_key_index demo_client < length (api_keys demo_client)"
    by (simp add: demo_client_def)
  have a3: "transport ?ev (length (sent empty_world))
      (imagen_request (api_keys demo_client ! current_key_index demo_client) ''a pattern'' 1
         ''1:1'') = Inr (predictions_response [])"
    by (simp add: env_answering_def)
  have a4: "status_exn (predictions_response []) = None"
    by (simp add: predictions_response_def)
  have a5: "json_result (predictions_response []) = Inr (JObj [(''predictions'', JArr [])])"
    by (simp add: predictions_response_def)
  have a6: "py_get (JObj [(''predictions'', JArr [])]) ''predictions'' (JArr []) = Inr (JArr [])"
    by simp
  have a7: "py_iter (JArr []) = Inr []" by simp
  have a8: "\<forall>p \<in> set []. well_formed_prediction ?ev p \<and> \<not> carries_payload p" by simp
  have k: "api_keys demo_client ! current_key_index demo_client = ''k3''"
    by (simp add: demo_client_def)
  have d: "demo_client\<lparr>attempts := attempts demo_client + 1\<rparr> = demo_client\<lparr>attempts := 1\<rparr>"
    by (simp add: demo_client_def)
  have e: "empty_world\<lparr>sent := sent empty_world @ [imagen_request ''k3'' ''a pattern'' 1 ''1:1'']\<rparr>
           = empty_world\<lparr>sent := [imagen_request ''k3'' ''a pattern'' 1 ''1:1'']\<rparr>"
    by (simp add: empty_world_def)
  show ?thesis
    using generate_image_single_index_error [OF a1 a2 a3 a4 a5 a6 a7 a8,
        where filename = "Some ''test_pattern.png''"] a1 a4 a5
    unfolding k d e by simp
qed

subsection \<open>Paths returned by image generation\<close>

lemma rstrip_png_suffix:
  assumes "base = [] \<or> last base \<notin> set ''.png''"
  shows "py_rstrip_chars ''.png'' (base @ ''.png'') = base"
proof (cases "base = []")
  case True
  then show ?thesis by (simp add: py_rstrip_chars_def)
next
  case False
  then obtain b0 l where b: "base = b0 @ [l]" by (metis append_butlast_last_id)
  with assms False have "l \<notin> set ''.png''" by simp
  then show ?thesis by (simp add: py_rstrip_chars_def b)
qed

lemma out_name_png:
  assumes "sc \<noteq> 1" and "base = [] \<or> last base \<notin> set ''.png''"
  shows "out_name sc (base @ ''.png'') i = base @ ''_'' @ str_int (int i + 1) @ ''.png''"
  using assms(1) rstrip_png_suffix [OF assms(2)] by (simp add: out_name_def)

lemma generate_image_many:
  assumes "0 \<le> max_retries c"
    and "current_key_index c < length (api_keys c)"
    and "\<forall>rq. transport ev (length (sent w)) rq = Inr resp"
    and "status_exn resp = None" and "json_result resp = Inr js"
    and "py_get js ''predictions'' (JArr []) = Inr preds" and "py_iter preds = Inr items"
    and "\<forall>p \<in> set items. well_formed_prediction ev p"
    and "\<forall>path. open_wb ev path = None" and "hint \<noteq> []" and "sc \<noteq> 1"
  shows "\<exists>w'. generate_image ev prompt sc (Some hint) aspect c w =
           (Inr (Paths
              (map (\<lambda>(i, p). path_join (module_dir ev) [''assets'', out_name sc hint i])
                 (filter (\<lambda>(i, p). carries_payload p) (enumerate 0 items)))),
            c\<lparr>attempts := attempts c + 1\<rparr>, w')"
proof -
  let ?w1 = "w\<lparr>sent := sent w @
                [imagen_request (api_keys c ! current_key_index c) prompt sc aspect]\<rparr>"
  have tr: "transport ev (length (sent w))
           (imagen_request (api_keys c ! current_key_index c) prompt sc aspect) = Inr resp"
    using assms(3) by blast
  obtain w' where sv: "save_images ev sc 0 items (Some hint) [] ?w1 =
      (Inr ([] @ map (\<lambda>(i, p). path_join (module_dir ev) [''assets'', out_name sc hint i])
                 (filter (\<lambda>(i, p). carries_payload p) (enumerate 0 items))), w')"
    using save_images_well_formed [OF assms(8,9,10), of sc 0 "[]" ?w1] by blast
  have "generate_image_request ev prompt sc (Some hint) aspect c w =
      (Inr (Paths (map (\<lambda>(i, p). path_join (module_dir ev) [''assets'', out_name sc hint i])
                 (filter (\<lambda>(i, p). carries_payload p) (enumerate 0 items)))), w')"
    using generate_image_request_answered [OF assms(2) tr assms(4-7), of "Some hint"] sv
      assms(11)
    by (simp add: io_bind_def io_lift_def select_result_def)
  then have "make_request_with_retry (generate_image_request ev prompt sc (Some hint) aspect)
               c w = (Inr (Paths (map (\<lambda>(i, p). path_join (module_dir ev) [''assets'', out_name sc hint i])
                 (filter (\<lambda>(i, p). carries_payload p) (enumerate 0 items)))), c\<lparr>attempts := attempts c + 1\<rparr>, w')"
    by (rule retry_first_success [OF assms(1)])
  then show ?thesis
    unfolding generate_image_def by (rule exI)
qed

lemma generate_image_single:
  assumes "0 \<le> max_retries c"
    and "current_key_index c < length (api_keys c)"
    and "\<forall>rq. transport ev (length (sent w)) rq = Inr resp"
    and "status_exn resp = None" and "json_result resp = Inr js"
    and "py_get js ''predictions'' (JArr []) = Inr preds" and "py_iter preds = Inr items"
    and "\<forall>p \<in> set items. well_formed_prediction ev p"
    and "\<forall>path. open_wb ev path = None" and "hint \<noteq> []"
    and "\<exists>p \<in> set items. carries_payload p"
  shows "\<exists>w'. generate_image ev prompt 1 (Some hint) aspect c w =
           (Inr (OnePath (path_join (module_dir ev) [''assets'', hint])),
            c\<lparr>attempts := attempts c + 1\<rparr>, w')"
proof -
  let ?w1 = "w\<lparr>sent := sent w @
                [imagen_request (api_keys c ! current_key_index c) prompt 1 aspect]\<rparr>"
  let ?L = "filter (\<lambda>(i, p). carries_payload p) (enumerate 0 items)"
  have tr: "transport ev (length (sent w))
           (imagen_request (api_keys c ! current_key_index c) prompt 1 aspect) = Inr resp"
    using assms(3) by blast
  obtain w' where sv: "save_images ev 1 0 items (Some hint) [] ?w1 =
      (Inr ([] @ map (\<lambda>(i, p). path_join (module_dir ev) [''assets'', out_name 1 hint i]) ?L),
       w')"
    using save_images_well_formed [OF assms(8,9,10), of 1 0 "[]" ?w1] by blast
  obtain p where p: "p \<in> set items" "carries_payload p" using assms(11) by blast
  then obtain k where k: "k < length items" "items ! k = p"
    by (auto simp add: in_set_conv_nth)
  then have "(k, p) \<in> set (enumerate 0 items)" by (simp add: in_set_enumerate_eq)
  with p(2) have "(k, p) \<in> set ?L" by simp
  then obtain x xs where L: "?L = x # xs" by (cases ?L) auto
  have "map (\<lambda>(i, p). path_join (module_dir ev) [''assets'', out_name 1 hint i]) ?L
        = path_join (module_dir ev) [''assets'', hint]
          # map (\<lambda>(i, p). path_join (module_dir ev) [''assets'', out_name 1 hint i]) xs"
    unfolding L by (cases x) (simp add: out_name_def)
  with sv have "generate_image_request ev prompt 1 (Some hint) aspect c w =
      (Inr (OnePath (path_join (module_dir ev) [''assets'', hint])), w')"
    using generate_image_request_answered [OF assms(2) tr assms(4-7), of "Some hint"]
    by (simp add: io_bind_def io_lift_def select_result_def)
  then have "make_request_with_retry (generate_image_request ev prompt 1 (Some hint) aspect)
               c w = (Inr (OnePath (path_join (module_dir ev) [''assets'', hint])), c\<lparr>attempts := attempts c + 1\<rparr>, w')"
    by (rule retry_first_success [OF assms(1)])
  then show ?thesis
    unfolding generate_image_def by (rule exI)
qed

text \<open>
  C3 (amended). Take a non-empty hint file name and a successful image-generation
  response whose predictions are well formed, in an environment where files can be
  written. With \<open>sample_count = 1\<close>, if some prediction carries a payload, the operation
  returns a single path (not a list): the assets directory joined with the hint itself.
  With any other \<open>sample_count\<close> (3, say) it returns a list holding one path per
  prediction that carries a payload, in the order of the response, so exactly three paths
  for a response with three payloads; and for a hint \<open>base.png\<close> whose \<open>base\<close> is empty or
  ends in a character other than \<open>.\<close>, \<open>p\<close>, \<open>n\<close>, \<open>g\<close>, the prediction at position \<open>i\<close>
  (from 0) is saved as \<open>base_(i+1).png\<close>.
\<close>

theorem generate_image_paths:
  assumes "0 \<le> max_retries c"
    and "current_key_index c < length (api_keys c)"
    and "\<forall>rq. transport ev (length (sent w)) rq = Inr resp"
    and "status_exn resp = None" and "json_result resp = Inr js"
    and "py_get js ''predictions'' (JArr []) = Inr preds" and "py_iter preds = Inr items"
    and "\<forall>p \<in> set items. well_formed_prediction ev p"
    and "\<forall>path. open_wb ev path = None" and "hint \<noteq> []"
  shows "((\<exists>p \<in> set items. carries_payload p) \<longrightarrow>
            (\<exists>w'. generate_image ev prompt 1 (Some hint) aspect c w =
               (Inr (OnePath (path_join (module_dir ev) [''assets'', hint])),
                c\<lparr>attempts := attempts c + 1\<rparr>, w')))
         \<and> (sc \<noteq> 1 \<longrightarrow>
            (\<exists>w'. generate_image ev prompt sc (Some hint) aspect c w =
               (Inr (Paths
                  (map (\<lambda>(i, p). path_join (module_dir ev) [''assets'', out_name sc hint i])
                     (filter (\<lambda>(i, p). carries_payload p) (enumerate 0 items)))),
                c\<lparr>attempts := attempts c + 1\<rparr>, w')))
         \<and> (sc \<noteq> 1 \<longrightarrow> base = [] \<or> last base \<notin> set ''.png'' \<longrightarrow>
            out_name sc (base @ ''.png'') i = base @ ''_'' @ str_int (int i + 1) @ ''.png'')"
proof (intro conjI impI)
  assume "\<exists>p \<in> set items. carries_payload p"
  then show "\<exists>w'. generate_image ev prompt 1 (Some hint) aspect c w =
               (Inr (OnePath (path_join (module_dir ev) [''assets'', hint])),
                c\<lparr>attempts := attempts c + 1\<rparr>, w')"
    by (rule generate_image_single [OF assms])
next
  assume "sc \<noteq> 1"
  then show "\<exists>w'. generate_image ev prompt sc (Some hint) aspect c w =
               (Inr (Paths
                  (map (\<lambda>(i, p). path_join (module_dir ev) [''assets'', out_name sc hint i])
                     (filter (\<lambda>(i, p). carries_payload p) (enumerate 0 items)))),
                c\<lparr>attempts := attempts c + 1\<rparr>, w')"
    by (rule generate_image_many [OF assms])
next
  assume "sc \<noteq> 1" and "base = [] \<or> last base \<notin> set ''.png''"
  then show "out_name sc (base @ ''.png'') i = base @ ''_'' @ str_int (int i + 1) @ ''.png''"
    by (rule out_name_png)
qed

lemma str_int_small: "str_int 1 = ''1''" "str_int 2 = ''2''" "str_int 3 = ''3''"
  by (simp_all add: str_int_def str_nat.simps)

text \<open>
  \<^verbatim>\<open>rstrip('.png')\<close> removes trailing characters out of a set, so a base name ending in
  one of them loses more than the extension.
\<close>

lemma out_name_slip: "out_name 3 ''design.png'' 0 = ''desi_1.png''"
  by (simp add: out_name_def py_rstrip_chars_def str_int_small)

lemma out_name_base:
  "out_name 3 ''base.png'' 0 = ''base_1.png''"
  "out_name 3 ''base.png'' (Suc 0) = ''base_2.png''"
  "out_name 3 ''base.png'' (Suc (Suc 0)) = ''base_3.png''"
  by (simp_all add: out_name_def py_rstrip_chars_def str_int_small)

lemma assets_path: "path_join ''/app'' [''assets'', name] =
    (if prefix ''/'' name then name else ''/app/assets/'' @ name)"
  by (simp add: path_join_def path_join2_def suffix_def)

lemma image_payload_well_formed:
  "well_formed_prediction (env_answering r) (image_payload (x # xs))"
  "carries_payload (image_payload (x # xs))"
  by (simp_all add: well_formed_prediction_def decodable_payload_def carries_payload_def
      image_payload_def env_answering_def)

lemma images_env:
  "\<forall>rq. transport (env_answering r) n rq = Inr r"
  "\<forall>path. open_wb (env_answering r) path = None"
  "module_dir (env_answering r) = ''/app''"
  by (simp_all add: env_answering_def)

lemma predictions_response_items:
  "status_exn (predictions_response ps) = None"
  "json_result (predictions_response ps) = Inr (JObj [(''predictions'', JArr ps)])"
  "py_get (JObj [(''predictions'', JArr ps)]) ''predictions'' (JArr []) = Inr (JArr ps)"
  "py_iter (JArr ps) = Inr ps"
  by (simp_all add: predictions_response_def)

lemma demo_client_ready:
  "0 \<le> max_retries demo_client" "current_key_index demo_client < length (api_keys demo_client)"
  "attempts demo_client = 0"
  by (simp_all add: demo_client_def)

theorem generate_image_paths_witness:
  "(\<exists>w'. generate_image (env_answering (predictions_response three_images)) ''a pattern'' 1
            (Some ''base.png'') ''1:1'' demo_client empty_world =
          (Inr (OnePath ''/app/assets/base.png''), demo_client\<lparr>attempts := 1\<rparr>, w'))
   \<and> (\<exists>w'. generate_image (env_answering (predictions_response three_images)) ''a pattern'' 3
            (Some ''base.png'') ''1:1'' demo_client empty_world =
          (Inr (Paths [''/app/assets/base_1.png'', ''/app/assets/base_2.png'',
                       ''/app/assets/base_3.png'']),
           demo_client\<lparr>attempts := 1\<rparr>, w'))"
proof -
  let ?ev = "env_answering (predictions_response three_images)"
  have wf: "\<forall>p \<in> set three_images. well_formed_prediction ?ev p"
    by (simp add: three_images_def image_payload_well_formed)
  have ex: "\<exists>p \<in> set three_images. carries_payload p"
    by (simp add: three_images_def image_payload_well_formed)
  have h: "''base.png'' \<noteq> []" by simp
  have fl: "filter (\<lambda>(i, p). carries_payload p) (enumerate 0 three_images)
            = [(0, image_payload ''QUJD''), (Suc 0, image_payload ''REVG''),
               (Suc (Suc 0), image_payload ''R0hJ'')]"
    by (simp add: three_images_def image_payload_well_formed)
  have three: "(3::int) \<noteq> 1" by simp
  note t = generate_image_paths [where sc = 3 and w = empty_world
      and prompt = "''a pattern''" and aspect = "''1:1''",
      OF demo_client_ready(1,2) images_env(1) predictions_response_items wf images_env(2) h]
  have one: "\<exists>w'. generate_image ?ev ''a pattern'' 1 (Some ''base.png'') ''1:1''
                 demo_client empty_world =
          (Inr (OnePath ''/app/assets/base.png''), demo_client\<lparr>attempts := 1\<rparr>, w')"
    using t [THEN conjunct1] ex
    by (simp add: images_env(3) assets_path demo_client_ready(3))
  have many: "\<exists>w'. generate_image ?ev ''a pattern'' 3 (Some ''base.png'') ''1:1''
                 demo_client empty_world =
          (Inr (Paths [''/app/assets/base_1.png'', ''/app/assets/base_2.png'',
                       ''/app/assets/base_3.png'']),
           demo_client\<lparr>attempts := 1\<rparr>, w')"
    using t [THEN conjunct2, THEN conjunct1] three
    by (simp add: fl images_env(3) assets_path out_name_base demo_client_ready(3))
  from one many show ?thesis by (rule conjI)
qed

text \<open>
  A successful response to a request for three images may hold two predictions: the
  operation then returns two paths.
\<close>

theorem generate_image_paths_counterexample:
  "json_result (predictions_response two_images) = Inr (JObj [(''predictions'', JArr two_images)])
   \<and> fst (generate_image (env_answering (predictions_response two_images)) ''a pattern'' 3
            (Some ''base.png'') ''1:1'' demo_client empty_world) =
       Inr (Paths [''/app/assets/base_1.png'', ''/app/assets/base_2.png''])
   \<and> length [''/app/assets/base_1.png'', ''/app/assets/base_2.png''] \<noteq> 3"
proof -
  let ?ev = "env_answering (predictions_response two_images)"
  have wf: "\<forall>p \<in> set two_images. well_formed_prediction ?ev p"
    by (simp add: two_images_def image_payload_well_formed)
  have h: "''base.png'' \<noteq> []" by simp
  have fl: "filter (\<lambda>(i, p). carries_payload p) (enumerate 0 two_images)
            = [(0, image_payload ''QUJD''), (Suc 0, image_payload ''REVG'')]"
    by (simp add: two_images_def image_payload_well_formed)
  have three: "(3::int) \<noteq> 1" by simp
  have "\<exists>w'. generate_image ?ev ''a pattern'' 3 (Some ''base.png'') ''1:1''
                 demo_client empty_world =
          (Inr (Paths [''/app/assets/base_1.png'', ''/app/assets/base_2.png'']),
           demo_client\<lparr>attempts := 1\<rparr>, w')"
    using generate_image_many [where w = empty_world
      and prompt = "''a pattern''" and aspect = "''1:1''",
      OF demo_client_ready(1,2) images_env(1) predictions_response_items wf images_env(2)
        h three]
    by (simp add: fl images_env(3) assets_path out_name_base demo_client_ready(3))
  then have "fst (generate_image ?ev ''a pattern'' 3 (Some ''base.png'') ''1:1''
                 demo_client empty_world) =
          Inr (Paths [''/app/assets/base_1.png'', ''/app/assets/base_2.png''])"
    by (elim exE) simp
  then show ?thesis by (simp add: predictions_response_items)
qed

end
